theory Spec2Isabelle
  imports Main "HOL-Library.Word"
begin

unbundle bit_operations_syntax

section \<open>Configuration (config.h)\<close>

definition STATUS_TIMEOUT :: int where
  "STATUS_TIMEOUT = 10000"

definition NOTIFY_TIMEOUT :: int where
  "NOTIFY_TIMEOUT = 2000"

definition MX_STATUS_CHARS :: nat where
  "MX_STATUS_CHARS = 192"

definition MX_ELEMENT_CHARS :: nat where
  "MX_ELEMENT_CHARS = 32"

definition MX_NUMBER_ELEMENTS :: nat where
  "MX_NUMBER_ELEMENTS = MX_STATUS_CHARS div MX_ELEMENT_CHARS"

definition POWER_SUPPLY :: string where
  "POWER_SUPPLY = ''/sys/class/power_supply''"

definition BATTERY_NAME :: string where
  "BATTERY_NAME = ''BAT1''"

definition ADAPTOR_NAME :: string where
  "ADAPTOR_NAME = ''AC''"

definition si_separator :: char where
  "si_separator = CHR '' ''"

section \<open>C strings\<close>

text \<open>
  A C string is modelled by the characters before its terminating NUL. What
  \<^verbatim>\<open>snprintf(buf, size, fmt, ...)\<close> leaves in \<^verbatim>\<open>buf\<close> is the formatted text cut to
  \<^verbatim>\<open>size - 1\<close> characters; \<^verbatim>\<open>strncat(dest, src, n)\<close> appends at most \<^verbatim>\<open>n\<close> characters
  of \<^verbatim>\<open>src\<close>.
\<close>

definition snprintf :: "nat \<Rightarrow> string \<Rightarrow> string" where
  "snprintf n txt = take (n - 1) txt"

definition strncat :: "string \<Rightarrow> string \<Rightarrow> nat \<Rightarrow> string" where
  "strncat dest src n = dest @ take n src"

text \<open>The conversions \<^verbatim>\<open>%li\<close>, \<^verbatim>\<open>%i\<close> and \<^verbatim>\<open>%d\<close>: decimal digits, with a minus sign.\<close>

definition digit_char :: "nat \<Rightarrow> char" where
  "digit_char d = ''0123456789'' ! d"

fun dec_nat :: "nat \<Rightarrow> string" where
  "dec_nat n = (if n < 10 then [digit_char n] else dec_nat (n div 10) @ [digit_char (n mod 10)])"

declare dec_nat.simps [simp del]

definition dec_int :: "int \<Rightarrow> string" where
  "dec_int v = (if v < 0 then CHR ''-'' # dec_nat (nat (- v)) else dec_nat (nat v))"

text \<open>\<^verbatim>\<open>%s\<close> applied to a possibly null pointer (glibc prints \<^verbatim>\<open>(null)\<close>).\<close>

definition fmt_s :: "string option \<Rightarrow> string" where
  "fmt_s p = (case p of None \<Rightarrow> ''(null)'' | Some s \<Rightarrow> s)"

text \<open>Division of C's \<^verbatim>\<open>long\<close>: the quotient is truncated towards zero.\<close>

definition c_div :: "int \<Rightarrow> int \<Rightarrow> int" where
  "c_div a b = sgn a * sgn b * (\<bar>a\<bar> div \<bar>b\<bar>)"

text \<open>The range of C's \<^verbatim>\<open>long\<close> (64 bits).\<close>

definition LONG_MAX :: int where
  "LONG_MAX = 2 ^ 63 - 1"

definition LONG_MIN :: int where
  "LONG_MIN = - (2 ^ 63)"

text \<open>An arithmetic result of type \<^verbatim>\<open>long\<close>: the value modulo \<open>2 ^ 64\<close> that lies in the range.\<close>

definition long_wrap :: "int \<Rightarrow> int" where
  "long_wrap v = (v + 2 ^ 63) mod 2 ^ 64 - 2 ^ 63"

text \<open>
  \<^verbatim>\<open>atol\<close>: leading white space, an optional sign, then decimal digits; a number outside
  the range of \<^verbatim>\<open>long\<close> gives the nearest end of the range, as \<^verbatim>\<open>strtol\<close> does.
\<close>

definition isspace :: "char \<Rightarrow> bool" where
  "isspace c = (c \<in> set [CHR '' '', CHR 0x09, CHR 0x0A, CHR 0x0B, CHR 0x0C, CHR 0x0D])"

definition isdigit :: "char \<Rightarrow> bool" where
  "isdigit c = (c \<in> set ''0123456789'')"

definition digit_val :: "char \<Rightarrow> int" where
  "digit_val c = int (length (takeWhile (\<lambda>d. d \<noteq> c) ''0123456789''))"

fun atol_digits :: "int \<Rightarrow> string \<Rightarrow> int" where
  "atol_digits acc [] = acc"
| "atol_digits acc (c # cs) =
     (if isdigit c then atol_digits (acc * 10 + digit_val c) cs else acc)"

definition atol_number :: "string \<Rightarrow> int" where
  "atol_number s =
     (case dropWhile isspace s of
        [] \<Rightarrow> 0
      | c # cs \<Rightarrow>
          if c = CHR ''-'' then - atol_digits 0 cs
          else if c = CHR ''+'' then atol_digits 0 cs
          else atol_digits 0 (c # cs))"

definition atol :: "string \<Rightarrow> int" where
  "atol s =
     (if atol_number s > LONG_MAX then LONG_MAX
      else if atol_number s < LONG_MIN then LONG_MIN
      else atol_number s)"

text \<open>Whether \<open>sub\<close> occurs in \<open>s\<close> as a run of consecutive characters.\<close>

fun contains :: "string \<Rightarrow> string \<Rightarrow> bool" where
  "contains [] sub = (sub = [])"
| "contains (c # cs) sub = (take (length sub) (c # cs) = sub \<or> contains cs sub)"

section \<open>The composer of udevStatus\<close>

text \<open>
  The last loop of \<^verbatim>\<open>udevStatus\<close>:
  \<^verbatim>\<open>j=MX_STATUS_CHARS;
  for (i=0; i<MX_NUMBER_ELEMENTS && j>MX_ELEMENT_CHARS; i++) {
     strncat(sBuf, udevDisplayInfo[i], MX_ELEMENT_CHARS);
     j-=strlen(udevDisplayInfo[i]);
  }\<close>
  The slots are the rows of \<^verbatim>\<open>char udevDisplayInfo[MX_NUMBER_ELEMENTS][MX_ELEMENT_CHARS]\<close>.
\<close>

function udevStatus_concat :: "string list \<Rightarrow> nat \<Rightarrow> int \<Rightarrow> string \<Rightarrow> string" where
  "udevStatus_concat slots i j sBuf =
     (if i < MX_NUMBER_ELEMENTS \<and> j > int MX_ELEMENT_CHARS
      then udevStatus_concat slots (i + 1) (j - int (length (slots ! i)))
             (strncat sBuf (slots ! i) MX_ELEMENT_CHARS)
      else sBuf)"
  by pat_completeness auto
termination
  by (relation "measure (\<lambda>(slots, i, j, sBuf). MX_NUMBER_ELEMENTS - i)") auto

declare udevStatus_concat.simps [simp del]


section \<open>Device-change records and the handlers of config.h\<close>

text \<open>
  What the program reads of a \<^verbatim>\<open>struct udev_device\<close>: its subsystem (the only accessor
  whose result is tested against NULL), its action and kernel name, and its sysfs attributes
  (\<^verbatim>\<open>udev_device_get_sysattr_value\<close> returns NULL for an attribute the device lacks).
\<close>

record udev_device =
  dev_subsystem :: "string option"
  dev_action :: string
  dev_sysname :: string
  dev_sysattr :: "string \<Rightarrow> string option"

text \<open>
  A handler \<^verbatim>\<open>int (*func)(struct udev_device *dev, char *displayInfo)\<close> is modelled by its
  return value and the text it stores in its slot (\<open>None\<close> when it returns without storing
  anything). The outer \<open>None\<close> stands for the runs in which the C code has no defined
  behaviour and the process is stopped: reading through a null pointer, dividing by zero,
  or dividing \<^verbatim>\<open>LONG_MIN\<close> by \<open>-1\<close>. A product that does not fit in a \<^verbatim>\<open>long\<close> wraps
  around, as the multiplication instruction does.
\<close>

type_synonym handler = "udev_device \<Rightarrow> (int \<times> string option) option"

definition backlightStatus :: handler where
  "backlightStatus dev =
     (case dev_sysattr dev ''actual_brightness'' of
        None \<Rightarrow> None
      | Some actual \<Rightarrow>
          (case dev_sysattr dev ''max_brightness'' of
             None \<Rightarrow> None
           | Some mx \<Rightarrow>
               if atol mx = 0 then None
               else if long_wrap (100 * atol actual) = LONG_MIN \<and> atol mx = - 1 then None
               else Some (0, Some (snprintf MX_ELEMENT_CHARS
                      (''LCD: '' @ dec_int (c_div (long_wrap (100 * atol actual)) (atol mx))
                         @ ''%'' @ [si_separator])))))"

definition first_char :: "string \<Rightarrow> char \<Rightarrow> bool" where
  "first_char s c = (case s of [] \<Rightarrow> False | x # xs \<Rightarrow> x = c)"

text \<open>
  \<^verbatim>\<open>if (soft!=NULL || hard!=NULL) { if (soft[0]=='0' && hard[0]=='0') ...\<close>: with exactly
  one of the two attributes missing a null pointer is read, unless \<^verbatim>\<open>&&\<close> stops at
  \<^verbatim>\<open>soft[0]\<close>.
\<close>

definition rfKillStatus :: handler where
  "rfKillStatus dev =
     (let index = dev_sysattr dev ''index'';
          type = dev_sysattr dev ''type'';
          soft = dev_sysattr dev ''soft'';
          hard = dev_sysattr dev ''hard''
      in if soft \<noteq> None \<or> hard \<noteq> None then
           (case soft of
              None \<Rightarrow> None
            | Some sv \<Rightarrow>
                if first_char sv CHR ''0'' then
                  (case hard of
                     None \<Rightarrow> None
                   | Some hv \<Rightarrow>
                       Some (0, Some (snprintf MX_ELEMENT_CHARS
                         (fmt_s type @ '' [rfkill index:'' @ fmt_s index @ '']: ''
                            @ (if first_char hv CHR ''0'' then ''On'' else ''Off'')
                            @ [si_separator]))))
                else
                  Some (0, Some (snprintf MX_ELEMENT_CHARS
                    (fmt_s type @ '' [rfkill index:'' @ fmt_s index @ '']: '' @ ''Off''
                       @ [si_separator]))))
         else Some (- 1, None))"

definition powerStatus :: handler where
  "powerStatus dev =
     (if BATTERY_NAME = dev_sysname dev then Some (0, Some [])
      else if ADAPTOR_NAME = dev_sysname dev then
        (case dev_sysattr dev ''online'' of
           None \<Rightarrow> None
         | Some online \<Rightarrow>
             Some (0, Some (snprintf MX_ELEMENT_CHARS
               (fmt_s (dev_subsystem dev) @ '': '' @ dev_sysname dev @ '': ''
                  @ (if first_char online CHR ''0'' then ''Unplugged'' else ''Plugged'')
                  @ [si_separator]))))
      else
        Some (0, Some (snprintf MX_ELEMENT_CHARS
          (fmt_s (dev_subsystem dev) @ '': '' @ dev_sysname dev @ '': '' @ dev_action dev
             @ [si_separator]))))"

definition udevActions :: "(string \<times> handler) list" where
  "udevActions =
     [(''backlight'', backlightStatus), (''rfkill'', rfKillStatus),
      (''power_supply'', powerStatus)]"

section \<open>udevStatus\<close>

text \<open>
  The state of \<^verbatim>\<open>udevStatus\<close> while it runs: \<^verbatim>\<open>ret\<close>, the slots, and a log of the indices
  of the slots stored into so far (the log is not in the C code; it records the stores so
  that they can be counted).
\<close>

record dispatch =
  d_ret :: int
  d_slots :: "string list"
  d_written :: "nat list"

text \<open>
  \<^verbatim>\<open>for (i=0; i<LENGTH(udevActions) && i<MX_NUMBER_ELEMENTS; i++) {
     if (strcoll(udevActions[i].subSystem, udevSubsystem)==0)
        ret=udevActions[i].func(dev, udevDisplayInfo[i]);
  }\<close>
  The program never calls \<^verbatim>\<open>setlocale\<close>, so \<^verbatim>\<open>strcoll\<close> compares as \<^verbatim>\<open>strcmp\<close> does.
\<close>

fun udevStatus_dispatch ::
  "udev_device \<Rightarrow> string \<Rightarrow> (string \<times> handler) list \<Rightarrow> nat \<Rightarrow> dispatch \<Rightarrow> dispatch option"
where
  "udevStatus_dispatch dev sub [] i d = Some d"
| "udevStatus_dispatch dev sub ((subSystem, func) # rest) i d =
     (if i < MX_NUMBER_ELEMENTS then
        (if subSystem = sub then
           (case func dev of
              None \<Rightarrow> None
            | Some (r, None) \<Rightarrow> udevStatus_dispatch dev sub rest (i + 1) (d\<lparr>d_ret := r\<rparr>)
            | Some (r, Some txt) \<Rightarrow>
                udevStatus_dispatch dev sub rest (i + 1)
                  (d\<lparr>d_ret := r, d_slots := (d_slots d)[i := txt],
                     d_written := d_written d @ [i]\<rparr>))
         else udevStatus_dispatch dev sub rest (i + 1) d)
      else Some d)"

record udev_result =
  ur_ret :: int
  ur_sBuf :: string
  ur_slots :: "string list"
  ur_written :: "nat list"

definition udevStatus :: "string \<Rightarrow> string list \<Rightarrow> udev_device \<Rightarrow> udev_result option" where
  "udevStatus sBuf slots dev =
     (case dev_subsystem dev of
        None \<Rightarrow> Some \<lparr>ur_ret = - 1, ur_sBuf = sBuf, ur_slots = slots, ur_written = []\<rparr>
      | Some sub \<Rightarrow>
          (case (if ''change'' = dev_action dev
                 then udevStatus_dispatch dev sub udevActions 0
                        \<lparr>d_ret = - 1, d_slots = slots, d_written = []\<rparr>
                 else Some \<lparr>d_ret = - 1, d_slots = slots, d_written = []\<rparr>) of
             None \<Rightarrow> None
           | Some d \<Rightarrow>
               let d' =
                 (if d_ret d = - 1 then
                    d\<lparr>d_slots := (d_slots d)[MX_NUMBER_ELEMENTS - 1 :=
                         snprintf MX_ELEMENT_CHARS
                           (sub @ '': '' @ dev_sysname dev @ '': '' @ dev_action dev @ '' '')],
                      d_written := d_written d @ [MX_NUMBER_ELEMENTS - 1]\<rparr>
                  else d)
               in Some \<lparr>ur_ret = 0,
                         ur_sBuf = udevStatus_concat (d_slots d') 0 (int MX_STATUS_CHARS) sBuf,
                         ur_slots = d_slots d', ur_written = d_written d'\<rparr>))"

section \<open>The wireless query (nl80211)\<close>

record si_nlData =
  nl_id :: int
  wlanStatsResult :: int

record si_wStats =
  ifindex :: nat
  signal :: int

text \<open>
  What \<^verbatim>\<open>getWifiStats_nl_cb\<close> finds in a message: no \<^verbatim>\<open>NL80211_ATTR_STA_INFO\<close>, station
  information that \<^verbatim>\<open>nla_parse_nested\<close> rejects, or station information with or without
  the one-byte \<^verbatim>\<open>NL80211_STA_INFO_SIGNAL\<close>.
\<close>

datatype sta_info = Sta_info_missing | Sta_info_rejected | Sta_info "8 word option"

definition getWifiStats_nl_cb :: "sta_info \<Rightarrow> si_wStats \<Rightarrow> si_wStats" where
  "getWifiStats_nl_cb msg w =
     (case msg of
        Sta_info_missing \<Rightarrow> w
      | Sta_info_rejected \<Rightarrow> w
      | Sta_info (Some b) \<Rightarrow> w\<lparr>signal := sint b\<rparr>
      | Sta_info None \<Rightarrow> w\<lparr>signal := 0\<rparr>)"

definition finish_handler :: "si_nlData \<Rightarrow> si_nlData" where
  "finish_handler nl = nl\<lparr>wlanStatsResult := 0\<rparr>"

text \<open>
  The callbacks registered by \<^verbatim>\<open>init_nl80211\<close>. One call of \<^verbatim>\<open>nl_recvmsgs\<close> is modelled by
  the sequence of callbacks that libnl invokes during that call; \<^verbatim>\<open>ack_handler\<close> only
  prints.
\<close>

datatype nl_callback = NL_CB_VALID sta_info | NL_CB_FINISH | NL_CB_ACK

fun nl_cb_call :: "nl_callback \<Rightarrow> si_nlData \<times> si_wStats \<Rightarrow> si_nlData \<times> si_wStats" where
  "nl_cb_call (NL_CB_VALID msg) (nl, w) = (nl, getWifiStats_nl_cb msg w)"
| "nl_cb_call NL_CB_FINISH (nl, w) = (finish_handler nl, w)"
| "nl_cb_call NL_CB_ACK (nl, w) = (nl, w)"

definition nl_recvmsgs :: "nl_callback list \<Rightarrow> si_nlData \<times> si_wStats \<Rightarrow> si_nlData \<times> si_wStats" where
  "nl_recvmsgs cbs st = fold nl_cb_call cbs st"

text \<open>
  \<^verbatim>\<open>while (nlData->wlanStatsResult > 0) nl_recvmsgs(nlData->socket, nlData->wlanStats_cb);\<close>
  where \<open>rx k\<close> is what the \<open>k\<close>-th call of \<^verbatim>\<open>nl_recvmsgs\<close> dispatches. The loop has no
  bound of its own: the result is \<open>None\<close> when it never ends.
\<close>

partial_function (option) getWifiStatus_wait ::
  "(nat \<Rightarrow> nl_callback list) \<Rightarrow> nat \<Rightarrow> si_nlData \<times> si_wStats \<Rightarrow> (si_nlData \<times> si_wStats) option"
where
  "getWifiStatus_wait rx k st =
     (if wlanStatsResult (fst st) > 0
      then getWifiStatus_wait rx (k + 1) (nl_recvmsgs (rx k) st)
      else Some st)"

declare getWifiStatus_wait.simps [code]

text \<open>
  \<^verbatim>\<open>getWifiStatus\<close> returns its \<^verbatim>\<open>int\<close> and leaves its results in \<^verbatim>\<open>*nlData\<close> and
  \<^verbatim>\<open>*wStats\<close>. \<^verbatim>\<open>ifindex\<close> is an \<^verbatim>\<open>unsigned int\<close>, so the first test never succeeds.
\<close>

definition getWifiStatus ::
  "bool \<Rightarrow> (nat \<Rightarrow> nl_callback list) \<Rightarrow> si_nlData \<Rightarrow> si_wStats
     \<Rightarrow> (int \<times> si_nlData \<times> si_wStats) option"
where
  "getWifiStatus nlmsg_alloc_ok rx nl w =
     (if int (ifindex w) < 0 then Some (- 1, nl, w)
      else if \<not> nlmsg_alloc_ok then Some (- 2, nl, w)
      else
        (case getWifiStatus_wait rx 0 (nl\<lparr>wlanStatsResult := 1\<rparr>, w) of
           None \<Rightarrow> None
         | Some (nl', w') \<Rightarrow> Some (0, nl', w')))"

text \<open>
  The value a callback records in the signal field, if it records one, and the last value
  recorded in a sequence of callbacks.
\<close>

definition recorded :: "nl_callback \<Rightarrow> int option" where
  "recorded cb =
     (case cb of
        NL_CB_VALID (Sta_info (Some b)) \<Rightarrow> Some (sint b)
      | NL_CB_VALID (Sta_info None) \<Rightarrow> Some 0
      | NL_CB_VALID Sta_info_missing \<Rightarrow> None
      | NL_CB_VALID Sta_info_rejected \<Rightarrow> None
      | NL_CB_FINISH \<Rightarrow> None
      | NL_CB_ACK \<Rightarrow> None)"

definition last_recorded :: "nl_callback list \<Rightarrow> int option" where
  "last_recorded cbs =
     fold (\<lambda>cb acc. case recorded cb of None \<Rightarrow> acc | Some v \<Rightarrow> Some v) cbs None"

text \<open>
  \<^verbatim>\<open>init_nl80211\<close>, given what \<^verbatim>\<open>nl_socket_alloc\<close>, \<^verbatim>\<open>genl_connect\<close>,
  \<^verbatim>\<open>genl_ctrl_resolve\<close> and \<^verbatim>\<open>nl_cb_alloc\<close> answer: its return value and \<^verbatim>\<open>nlData->id\<close>.
\<close>

definition init_nl80211 :: "bool \<Rightarrow> int \<Rightarrow> int \<Rightarrow> bool \<Rightarrow> int \<times> int" where
  "init_nl80211 socket_ok connect_ret resolve_ret cb_ok =
     (if \<not> socket_ok then (- 1, - 1)
      else if connect_ret \<noteq> 0 then (- 1, - 1)
      else if resolve_ret < 0 then (- 1, resolve_ret)
      else if \<not> cb_ok then (- 1, resolve_ret)
      else (resolve_ret, resolve_ret))"

section \<open>Network fragment\<close>

text \<open>
  \<^verbatim>\<open>getEthernetStatus\<close>, given what the socket and the two \<^verbatim>\<open>SIOCETHTOOL\<close> requests
  answer: the new content of \<^verbatim>\<open>displayStatus\<close>. \<open>Ioctl_done nwords second\<close> is a first
  request that succeeds with \<^verbatim>\<open>link_mode_masks_nwords = nwords\<close>, and \<open>second\<close> the speed the
  second request reports (\<open>None\<close> when it fails).
\<close>

datatype ethtool = Socket_failed | Ioctl_failed | Ioctl_done int "int option"

definition getEthernetStatus :: "nat \<Rightarrow> ethtool \<Rightarrow> string \<Rightarrow> string \<Rightarrow> string" where
  "getEthernetStatus idx e name displayStatus =
     (case e of
        Socket_failed \<Rightarrow> []
      | Ioctl_failed \<Rightarrow> snprintf 16 (take 1 name @ ''('' @ dec_int (int idx) @ ''):err'')
      | Ioctl_done nwords second \<Rightarrow>
          if nwords < 0 then
            (case second of
               None \<Rightarrow> displayStatus
             | Some speed \<Rightarrow>
                 snprintf 16 (take 1 name @ dec_int (int idx) @ '':'' @ dec_int speed @ ''M ''))
          else displayStatus)"

datatype sa_family = AF_INET | AF_INET6 | AF_other

record ifaddrs =
  ifa_name :: string
  ifa_addr :: "sa_family option"
  IFF_LOOPBACK :: bool
  IFF_POINTOPOINT :: bool
  IFF_RUNNING :: bool

text \<open>
  What \<^verbatim>\<open>getNetwork\<close> obtains from the system: the list of \<^verbatim>\<open>getifaddrs\<close> (\<open>None\<close> when it
  fails), interface indices, the ethtool answers, the netlink answers for each wireless
  interface, and the bytes that \<^verbatim>\<open>displayStatus\<close>, which is not initialised, holds on entry.
\<close>

record net_env =
  getifaddrs :: "ifaddrs list option"
  if_nametoindex :: "string \<Rightarrow> nat"
  ethtool_of :: "string \<Rightarrow> ethtool"
  nlmsg_alloc_ok :: bool
  wifi_rx :: "string \<Rightarrow> nat \<Rightarrow> nl_callback list"
  stack_displayStatus :: string

record net_state =
  ns_i :: int
  ns_names :: "string list"
  ns_displayStatus :: string
  ns_displayText :: string
  ns_nlData :: si_nlData
  ns_wStats :: si_wStats

text \<open>
  The walk over the list. \<open>ns_names\<close> holds \<^verbatim>\<open>names[0..n-1]\<close>: once \<^verbatim>\<open>n\<close> is 15 a new name
  is stored in \<^verbatim>\<open>names[15]\<close>, which the search never reads.
\<close>

fun getNetwork_walk :: "net_env \<Rightarrow> ifaddrs list \<Rightarrow> net_state \<Rightarrow> net_state option" where
  "getNetwork_walk env [] st = Some st"
| "getNetwork_walk env (ifa # rest) st =
     (if \<not> ns_i st > 0 then Some st
      else if ifa_addr ifa = None \<or> IFF_LOOPBACK ifa \<or> IFF_POINTOPOINT ifa
      then getNetwork_walk env rest st
      else if (ifa_addr ifa = Some AF_INET \<or> ifa_addr ifa = Some AF_INET6) \<and> IFF_RUNNING ifa
      then
        (if ifa_name ifa \<in> set (ns_names st) then getNetwork_walk env rest st
         else
           (case
              (let st1 = st\<lparr>ns_names :=
                           (if length (ns_names st) < 15 then ns_names st @ [ifa_name ifa]
                            else ns_names st)\<rparr>;
                   st2 = (if first_char (ifa_name ifa) CHR ''e'' \<or> first_char (ifa_name ifa) CHR ''b''
                          then st1\<lparr>ns_displayStatus :=
                                 getEthernetStatus (if_nametoindex env (ifa_name ifa))
                                   (ethtool_of env (ifa_name ifa)) (ifa_name ifa)
                                   (ns_displayStatus st1)\<rparr>
                          else st1)
               in if first_char (ifa_name ifa) CHR ''w'' \<and> nl_id (ns_nlData st2) \<ge> 0 then
                    (case getWifiStatus (nlmsg_alloc_ok env) (wifi_rx env (ifa_name ifa))
                            (ns_nlData st2)
                            ((ns_wStats st2)\<lparr>ifindex := if_nametoindex env (ifa_name ifa)\<rparr>) of
                       None \<Rightarrow> None
                     | Some (r, nl', w') \<Rightarrow>
                         Some (st2\<lparr>ns_nlData := nl', ns_wStats := w',
                                 ns_displayStatus :=
                                   snprintf 16 (''w'' @ dec_int (int (ifindex w')) @ '':''
                                     @ dec_int (signal w') @ ''dBm '')\<rparr>))
                  else Some st2) of
              None \<Rightarrow> None
            | Some st3 \<Rightarrow>
                (let st4 = st3\<lparr>ns_displayText :=
                                 strncat (ns_displayText st3) (ns_displayStatus st3) (nat (ns_i st3)),
                               ns_i := ns_i st3 - int (length (ns_displayStatus st3))\<rparr>
                 in if ns_i st4 < 0 then Some st4 else getNetwork_walk env rest st4)))
      else getNetwork_walk env rest st)"

definition getNetwork ::
  "net_env \<Rightarrow> string \<Rightarrow> si_nlData \<Rightarrow> si_wStats \<Rightarrow> (string \<times> si_nlData \<times> si_wStats) option"
where
  "getNetwork env displayText nl w =
     (case getifaddrs env of
        None \<Rightarrow> Some (displayText, nl, w)
      | Some ifaddr \<Rightarrow>
          (case getNetwork_walk env ifaddr
                  \<lparr>ns_i = int MX_ELEMENT_CHARS - 1, ns_names = [],
                   ns_displayStatus = stack_displayStatus env, ns_displayText = displayText,
                   ns_nlData = nl, ns_wStats = w\<rparr> of
             None \<Rightarrow> None
           | Some st \<Rightarrow> Some (ns_displayText st, ns_nlData st, ns_wStats st)))"


section \<open>Periodic status\<close>

text \<open>
  \<^verbatim>\<open>getTime\<close>: \<open>Strftime txt\<close> is the text \<^verbatim>\<open>strftime\<close> stores when it succeeds.
\<close>

datatype clock = Localtime_failed | Strftime_failed | Strftime string

definition getTime :: "clock \<Rightarrow> string" where
  "getTime c =
     take (MX_ELEMENT_CHARS - 1)
       (case c of
          Localtime_failed \<Rightarrow> snprintf MX_ELEMENT_CHARS ''[clock error]''
        | Strftime_failed \<Rightarrow> snprintf MX_ELEMENT_CHARS ''[clock format error]''
        | Strftime txt \<Rightarrow> txt)"

text \<open>
  \<^verbatim>\<open>getSysInfo\<close>: \<open>sysfs path\<close> is the number \<^verbatim>\<open>fscanf\<close> reads from the file, \<open>None\<close> when
  the file cannot be opened or holds no number.
\<close>

definition getSysInfo :: "(string \<Rightarrow> int option) \<Rightarrow> string \<Rightarrow> int" where
  "getSysInfo sysfs sysPath = (case sysfs sysPath of None \<Rightarrow> - 1 | Some v \<Rightarrow> v)"

definition getTmpInfo :: "(string \<Rightarrow> int option) \<Rightarrow> string \<Rightarrow> int" where
  "getTmpInfo sysfs sysfsThermalPath =
     (let tmp = getSysInfo sysfs sysfsThermalPath
      in if tmp \<noteq> - 1 then c_div tmp 1000 else - 1)"

record status_env =
  clock_now :: clock
  sysfs :: "string \<Rightarrow> int option"
  net_now :: net_env

text \<open>The five local buffers of \<^verbatim>\<open>getStatusInfo\<close> as they are when the line is printed.\<close>

record status_elements =
  net :: string
  tmp :: string
  pwr :: string
  bat :: string
  tml :: string

definition getStatusInfo_elements ::
  "status_env \<Rightarrow> string \<Rightarrow> string \<Rightarrow> string option \<Rightarrow> si_nlData \<Rightarrow> si_wStats
     \<Rightarrow> (status_elements \<times> si_nlData \<times> si_wStats) option"
where
  "getStatusInfo_elements env sysfsBatteryCapacity sysfsBatteryPowerNow sysfsThermalPath nl w =
     (let tml0 = getTime (clock_now env);
          batCapacityNow = getSysInfo (sysfs env) sysfsBatteryCapacity;
          powerNow = c_div (getSysInfo (sysfs env) sysfsBatteryPowerNow) 1000000
      in case (if nl_id nl \<ge> 0 then getNetwork (net_now env) [] nl w else Some ([], nl, w)) of
           None \<Rightarrow> None
         | Some (net0, nl', w') \<Rightarrow>
             Some (\<lparr>net = net0,
                    tmp = (case sysfsThermalPath of
                             None \<Rightarrow> []
                           | Some path \<Rightarrow>
                               snprintf MX_ELEMENT_CHARS
                                 (''tmp:'' @ dec_int (getTmpInfo (sysfs env) path) @ ''C''
                                    @ [si_separator])),
                    pwr = (if powerNow > 0
                           then snprintf MX_ELEMENT_CHARS
                                  (''pwr:'' @ dec_int powerNow @ ''W'' @ [si_separator])
                           else []),
                    bat = (if batCapacityNow > 15
                           then snprintf MX_ELEMENT_CHARS
                                  (''bat:'' @ dec_int batCapacityNow @ ''%'' @ [si_separator])
                           else if batCapacityNow \<noteq> - 1
                           then snprintf MX_ELEMENT_CHARS
                                  (''[!]bat:'' @ dec_int batCapacityNow @ ''%'' @ [si_separator])
                           else []),
                    tml = tml0\<rparr>, nl', w'))"

text \<open>
  \<^verbatim>\<open>snprintf(sBuf, MX_STATUS_CHARS, "%s%s%s%s%s", net, tmp, pwr, bat, tml);
  sBuf[MX_STATUS_CHARS-1]='\0';\<close>
\<close>

definition status_line :: "status_elements \<Rightarrow> string" where
  "status_line e =
     take (MX_STATUS_CHARS - 1)
       (snprintf MX_STATUS_CHARS (net e @ tmp e @ pwr e @ bat e @ tml e))"

definition getStatusInfo ::
  "status_env \<Rightarrow> string \<Rightarrow> string \<Rightarrow> string option \<Rightarrow> si_nlData \<Rightarrow> si_wStats
     \<Rightarrow> (string \<times> si_nlData \<times> si_wStats) option"
where
  "getStatusInfo env sysfsBatteryCapacity sysfsBatteryPowerNow sysfsThermalPath nl w =
     (case getStatusInfo_elements env sysfsBatteryCapacity sysfsBatteryPowerNow
             sysfsThermalPath nl w of
        None \<Rightarrow> None
      | Some (e, nl', w') \<Rightarrow> Some (status_line e, nl', w'))"

section \<open>Output\<close>

datatype outputFunction = out_none | out_xorg | out_text | out_dwlb

text \<open>
  \<^verbatim>\<open>sbOut\<close>: only the dwlb socket reports anything; \<open>dwlbSend_ret\<close> is what \<^verbatim>\<open>dwlbSend\<close>
  returns (\<open>-1\<close> on an error, else the number of bytes sent).
\<close>

definition sbOut :: "outputFunction \<Rightarrow> int \<Rightarrow> int" where
  "sbOut f dwlbSend_ret =
     (case f of
        out_xorg \<Rightarrow> 0
      | out_text \<Rightarrow> 0
      | out_dwlb \<Rightarrow> dwlbSend_ret
      | out_none \<Rightarrow> - 1)"

section \<open>The loop of main\<close>

definition POLLIN :: "16 word" where
  "POLLIN = 0x001"

definition POLLERR :: "16 word" where
  "POLLERR = 0x008"

definition POLLNVAL :: "16 word" where
  "POLLNVAL = 0x020"

text \<open>What is fixed before the loop starts.\<close>

record config =
  outputFunction :: outputFunction
  sysfsThermalPath :: string

definition sysfsBatteryCapacity :: string where
  "sysfsBatteryCapacity = POWER_SUPPLY @ ''/'' @ BATTERY_NAME @ ''/capacity''"

definition sysfsBatteryPowerNow :: string where
  "sysfsBatteryPowerNow = POWER_SUPPLY @ ''/'' @ BATTERY_NAME @ ''/power_now''"

text \<open>The messages that the loop itself prints on \<^verbatim>\<open>stderr\<close>.\<close>

datatype message =
  Poll_error
| Receive_device_failed
| Signal_read_error
| Mixer_handle_events_failed int

text \<open>
  The variables of \<^verbatim>\<open>main\<close> that the loop reads and writes, \<^verbatim>\<open>volumeLevel\<close>, and the
  messages printed so far.
\<close>

record reactor =
  timeout :: int
  sBuf :: string
  volumeLevel :: string
  udevDisplayInfo :: "string list"
  nlData :: si_nlData
  wStats :: si_wStats
  errlog :: "message list"

text \<open>
  What the system answers during one pass of the loop: the result of \<^verbatim>\<open>poll\<close>, the device
  \<^verbatim>\<open>udev_monitor_receive_device\<close> returns (\<open>None\<close> for NULL), whether \<^verbatim>\<open>read\<close> delivers a
  whole \<^verbatim>\<open>signalfd_siginfo\<close>, the return value of \<^verbatim>\<open>snd_mixer_handle_events\<close> and the text
  \<^verbatim>\<open>mixer_elem_cb\<close> leaves in \<^verbatim>\<open>volumeLevel\<close> during that call (\<open>None\<close> when the callback
  does not run), what the periodic status reads, and the answer of the dwlb socket.
\<close>

record pass =
  poll_ret :: int
  revents0 :: "16 word"
  revents1 :: "16 word"
  revents2 :: "16 word"
  received_device :: "udev_device option"
  signal_read_ok :: bool
  mixer_handle_events_ret :: int
  mixer_elem_cb_text :: "string option"
  status_now :: status_env
  dwlbSend_ret :: int

text \<open>
  The result of one pass: the loop goes on to the next \<^verbatim>\<open>poll\<close> (\<open>Next\<close>) or is left
  (\<open>Exit\<close>), each with the state and the lines handed to \<^verbatim>\<open>sbOut\<close> during the pass; or a
  handler has no defined behaviour (\<open>Crashed\<close>); or the wireless query never ends
  (\<open>Hung\<close>).
\<close>

datatype step = Next reactor "string list" | Exit reactor "string list" | Crashed | Hung

text \<open>
  \<^verbatim>\<open>for (i=0; i<MX_NUMBER_ELEMENTS; i++) udevDisplayInfo[i][0]='\0';\<close>
\<close>

definition clear_slots :: "string list \<Rightarrow> string list" where
  "clear_slots slots = fold (\<lambda>i xs. xs[i := []]) [0..<MX_NUMBER_ELEMENTS] slots"

text \<open>Lines 844 to 852: the refresh that follows a timeout, or an event without text.\<close>

definition refresh :: "config \<Rightarrow> reactor \<Rightarrow> pass \<Rightarrow> step" where
  "refresh cfg s p =
     (let s1 = s\<lparr>udevDisplayInfo := clear_slots (udevDisplayInfo s)\<rparr>
      in case getStatusInfo (status_now p) sysfsBatteryCapacity sysfsBatteryPowerNow
                (Some (sysfsThermalPath cfg)) (nlData s1) (wStats s1) of
           None \<Rightarrow> Hung
         | Some (line, nl', w') \<Rightarrow>
             (let s2 = s1\<lparr>sBuf := line, nlData := nl', wStats := w'\<rparr>
              in if sbOut (outputFunction cfg) (dwlbSend_ret p) = - 1 then Exit s2 [line]
                 else Next (s2\<lparr>timeout := STATUS_TIMEOUT\<rparr>) [line]))"

text \<open>Lines 801 to 809: the device-change source.\<close>

definition drain_udev :: "reactor \<Rightarrow> pass \<Rightarrow> reactor option" where
  "drain_udev s p =
     (if revents0 p AND POLLIN \<noteq> 0 then
        (case received_device p of
           None \<Rightarrow> Some (s\<lparr>errlog := errlog s @ [Receive_device_failed]\<rparr>)
         | Some dev \<Rightarrow>
             (case udevStatus (sBuf s) (udevDisplayInfo s) dev of
                None \<Rightarrow> None
              | Some r \<Rightarrow> Some (s\<lparr>sBuf := ur_sBuf r, udevDisplayInfo := ur_slots r\<rparr>)))
      else Some s)"

text \<open>Lines 819 to 835: the mixer source.\<close>

definition drain_mixer :: "reactor \<Rightarrow> pass \<Rightarrow> reactor" where
  "drain_mixer s p =
     (if revents2 p AND POLLIN \<noteq> 0 then
        (let s1 = (case mixer_elem_cb_text p of
                     None \<Rightarrow> s
                   | Some txt \<Rightarrow> s\<lparr>volumeLevel := txt\<rparr>)
         in if mixer_handle_events_ret p < 0
            then s1\<lparr>errlog := errlog s1 @ [Mixer_handle_events_failed (mixer_handle_events_ret p)]\<rparr>
            else s1\<lparr>sBuf := snprintf MX_STATUS_CHARS (volumeLevel s1)\<rparr>)
      else s)"

text \<open>The body of \<^verbatim>\<open>while(!exit_request)\<close>, lines 788 to 852.\<close>

definition main_loop_body :: "config \<Rightarrow> reactor \<Rightarrow> pass \<Rightarrow> step" where
  "main_loop_body cfg s p =
     (if poll_ret p < 0 then Exit s []
      else if poll_ret p > 0 then
        (if revents0 p AND (POLLERR OR POLLNVAL) \<noteq> 0
            \<or> revents1 p AND (POLLERR OR POLLNVAL) \<noteq> 0
            \<or> revents2 p AND (POLLERR OR POLLNVAL) \<noteq> 0
         then Exit (s\<lparr>errlog := errlog s @ [Poll_error]\<rparr>) []
         else
           (case drain_udev (s\<lparr>sBuf := [], volumeLevel := []\<rparr>) p of
              None \<Rightarrow> Crashed
            | Some s2 \<Rightarrow>
                if revents1 p AND POLLIN \<noteq> 0 then
                  Exit (if signal_read_ok p then s2
                        else s2\<lparr>errlog := errlog s2 @ [Signal_read_error]\<rparr>) []
                else
                  (let s3 = drain_mixer s2 p
                   in if sBuf s3 \<noteq> [] then
                        (if sbOut (outputFunction cfg) (dwlbSend_ret p) = - 1 then Exit s3 [sBuf s3]
                         else Next (s3\<lparr>timeout := NOTIFY_TIMEOUT\<rparr>) [sBuf s3])
                      else refresh cfg s3 p)))
      else refresh cfg s p)"

text \<open>The test of line 794: some descriptor reports \<^verbatim>\<open>POLLERR\<close> or \<^verbatim>\<open>POLLNVAL\<close>.\<close>

definition poll_flags_error :: "pass \<Rightarrow> bool" where
  "poll_flags_error p \<longleftrightarrow>
     revents0 p AND (POLLERR OR POLLNVAL) \<noteq> 0
     \<or> revents1 p AND (POLLERR OR POLLNVAL) \<noteq> 0
     \<or> revents2 p AND (POLLERR OR POLLNVAL) \<noteq> 0"

text \<open>
  The state in which the loop is entered: \<^verbatim>\<open>int timeout=1000;\<close>, and \<^verbatim>\<open>sBuf\<close>,
  \<^verbatim>\<open>udevDisplayInfo\<close> and \<^verbatim>\<open>wStats\<close> as the stack happens to hold them.
\<close>

definition main_init :: "string \<Rightarrow> string list \<Rightarrow> si_nlData \<Rightarrow> si_wStats \<Rightarrow> reactor" where
  "main_init sBuf0 slots0 nl w0 =
     \<lparr>timeout = 1000, sBuf = sBuf0, volumeLevel = [], udevDisplayInfo = slots0,
      nlData = nl, wStats = w0, errlog = []\<rparr>"

text \<open>
  The states in which \<^verbatim>\<open>poll\<close> is called while the loop runs through the given passes,
  the last of them being the call that is pending when the passes are used up.
\<close>

fun poll_calls :: "config \<Rightarrow> reactor \<Rightarrow> pass list \<Rightarrow> reactor list" where
  "poll_calls cfg s [] = [s]"
| "poll_calls cfg s (p # ps) =
     s # (case main_loop_body cfg s p of
            Next s' out \<Rightarrow> poll_calls cfg s' ps
          | Exit s' out \<Rightarrow> []
          | Crashed \<Rightarrow> []
          | Hung \<Rightarrow> [])"

text \<open>
  \<^verbatim>\<open>while(!exit_request)\<close>: \<^verbatim>\<open>exit_request\<close> is set before the loop when the signal
  descriptor cannot be created, and the loop does not change it.
\<close>

definition main_loop :: "bool \<Rightarrow> config \<Rightarrow> reactor \<Rightarrow> pass list \<Rightarrow> reactor list" where
  "main_loop exit_request cfg s ps = (if exit_request then [] else poll_calls cfg s ps)"

text \<open>The lines handed to \<^verbatim>\<open>sbOut\<close> by a pass, and the state it leaves.\<close>

definition emitted :: "step \<Rightarrow> string list" where
  "emitted r = (case r of Next s out \<Rightarrow> out | Exit s out \<Rightarrow> out | Crashed \<Rightarrow> [] | Hung \<Rightarrow> [])"

definition state_after :: "step \<Rightarrow> reactor option" where
  "state_after r =
     (case r of Next s out \<Rightarrow> Some s | Exit s out \<Rightarrow> Some s | Crashed \<Rightarrow> None | Hung \<Rightarrow> None)"

definition goes_on :: "step \<Rightarrow> bool" where
  "goes_on r = (case r of Next s out \<Rightarrow> True | Exit s out \<Rightarrow> False | Crashed \<Rightarrow> False | Hung \<Rightarrow> False)"

section \<open>Example inputs\<close>


definition example_elements :: status_elements where
  "example_elements =
     \<lparr>net = ''e2:1000M '', tmp = ''tmp:41C '', pwr = ''pwr:7W '', bat = ''bat:50% '',
      tml = ''30-10-2026 14:37''\<rparr>"

definition example_thermal :: string where
  "example_thermal = ''/sys/class/hwmon/hwmon0/temp1_input''"

definition example_net :: net_env where
  "example_net =
     \<lparr>getifaddrs = Some
        [\<lparr>ifa_name = ''lo'', ifa_addr = Some AF_INET, IFF_LOOPBACK = True,
          IFF_POINTOPOINT = False, IFF_RUNNING = True\<rparr>,
         \<lparr>ifa_name = ''eth0'', ifa_addr = Some AF_INET, IFF_LOOPBACK = False,
          IFF_POINTOPOINT = False, IFF_RUNNING = True\<rparr>,
         \<lparr>ifa_name = ''wlan0'', ifa_addr = Some AF_INET, IFF_LOOPBACK = False,
          IFF_POINTOPOINT = False, IFF_RUNNING = True\<rparr>,
         \<lparr>ifa_name = ''eth0'', ifa_addr = Some AF_INET6, IFF_LOOPBACK = False,
          IFF_POINTOPOINT = False, IFF_RUNNING = True\<rparr>],
      if_nametoindex = (\<lambda>name. if name = ''eth0'' then 2 else 3),
      ethtool_of = (\<lambda>name. Ioctl_done (- 1) (Some 1000)),
      nlmsg_alloc_ok = True,
      wifi_rx = (\<lambda>name k. if k = 0 then [NL_CB_VALID (Sta_info (Some 0xCE))] else [NL_CB_FINISH]),
      stack_displayStatus = []\<rparr>"

definition example_status :: "int option \<Rightarrow> int option \<Rightarrow> int option \<Rightarrow> status_env" where
  "example_status capacity power_now temp =
     \<lparr>clock_now = Strftime ''30-10-2026 14:37'',
      sysfs = (\<lambda>path. if path = sysfsBatteryCapacity then capacity
                       else if path = sysfsBatteryPowerNow then power_now
                       else if path = example_thermal then temp
                       else None),
      net_now = example_net\<rparr>"

definition nl_unresolved :: si_nlData where
  "nl_unresolved = \<lparr>nl_id = - 1, wlanStatsResult = 0\<rparr>"

definition nl_resolved :: si_nlData where
  "nl_resolved = \<lparr>nl_id = 28, wlanStatsResult = 0\<rparr>"

definition example_wStats :: si_wStats where
  "example_wStats = \<lparr>ifindex = 0, signal = 0\<rparr>"

definition example_config :: config where
  "example_config = \<lparr>outputFunction = out_text, sysfsThermalPath = example_thermal\<rparr>"

definition dwlb_config :: config where
  "dwlb_config = \<lparr>outputFunction = out_dwlb, sysfsThermalPath = example_thermal\<rparr>"

definition backlight_change :: udev_device where
  "backlight_change =
     \<lparr>dev_subsystem = Some ''backlight'', dev_action = ''change'',
      dev_sysname = ''intel_backlight'',
      dev_sysattr = (\<lambda>a. if a = ''actual_brightness'' then Some ''50''
                         else if a = ''max_brightness'' then Some ''100'' else None)\<rparr>"

definition foo_change :: "string \<Rightarrow> udev_device" where
  "foo_change sysname =
     \<lparr>dev_subsystem = Some ''foo'', dev_action = ''change'', dev_sysname = sysname,
      dev_sysattr = (\<lambda>a. None)\<rparr>"

definition battery_change :: udev_device where
  "battery_change =
     \<lparr>dev_subsystem = Some ''power_supply'', dev_action = ''change'', dev_sysname = ''BAT1'',
      dev_sysattr = (\<lambda>a. None)\<rparr>"

definition rfkill_change :: udev_device where
  "rfkill_change =
     \<lparr>dev_subsystem = Some ''rfkill'', dev_action = ''change'', dev_sysname = ''rfkill0'',
      dev_sysattr = (\<lambda>a. if a = ''index'' then Some ''0''
                         else if a = ''type'' then Some ''wlan''
                         else if a = ''soft'' then Some ''0''
                         else if a = ''hard'' then Some ''0'' else None)\<rparr>"

definition pass_timeout :: pass where
  "pass_timeout =
     \<lparr>poll_ret = 0, revents0 = 0, revents1 = 0, revents2 = 0, received_device = None,
      signal_read_ok = True, mixer_handle_events_ret = 0, mixer_elem_cb_text = None,
      status_now = example_status (Some 10) (Some 7250000) (Some 41000), dwlbSend_ret = 0\<rparr>"

text \<open>
  A pass in which the device-change source delivers \<open>dev\<close>, and the termination source
  reports \<open>signal_revents\<close>.
\<close>

definition pass_device :: "udev_device option \<Rightarrow> 16 word \<Rightarrow> pass" where
  "pass_device dev signal_revents =
     pass_timeout\<lparr>poll_ret := 1, revents0 := POLLIN, revents1 := signal_revents,
       received_device := dev\<rparr>"

definition example_reactor :: reactor where
  "example_reactor = main_init [] (replicate 6 []) nl_unresolved example_wStats"

text \<open>
  Netlink answers: a station with signal byte \<open>0xCE\<close> and then the end of the dump; the
  end of the dump alone; a message without station information and then the end.
\<close>

definition rx_station :: "nat \<Rightarrow> nl_callback list" where
  "rx_station k = (if k = 0 then [NL_CB_VALID (Sta_info (Some 0xCE))] else [NL_CB_FINISH])"

definition rx_finish_only :: "nat \<Rightarrow> nl_callback list" where
  "rx_finish_only k = [NL_CB_FINISH]"

definition rx_no_sta_info :: "nat \<Rightarrow> nl_callback list" where
  "rx_no_sta_info k = [NL_CB_VALID Sta_info_missing, NL_CB_FINISH]"

definition earlier_wStats :: si_wStats where
  "earlier_wStats = \<lparr>ifindex = 3, signal = - 50\<rparr>"

definition low_battery_elements :: status_elements where
  "low_battery_elements =
     \<lparr>net = [], tmp = ''tmp:41C '', pwr = ''pwr:7W '', bat = ''[!]bat:10% '',
      tml = ''30-10-2026 14:37''\<rparr>"

definition backlight_shown :: reactor where
  "backlight_shown =
     example_reactor\<lparr>sBuf := ''LCD: 50% '',
       udevDisplayInfo := [''LCD: 50% '', [], [], [], [], []]\<rparr>"

definition rfkill_result :: udev_result where
  "rfkill_result =
     \<lparr>ur_ret = 0, ur_sBuf = ''LCD: 50% wlan [rfkill index:0]: On '',
      ur_slots = [''LCD: 50% '', ''wlan [rfkill index:0]: On '', [], [], [], []],
      ur_written = [1]\<rparr>"

text \<open>
  A pass in which both sources are ready and both drains fail: no device is received,
  and \<^verbatim>\<open>snd_mixer_handle_events\<close> returns \<^verbatim>\<open>-EPIPE\<close>.
\<close>

definition failed_drains :: pass where
  "failed_drains =
     pass_timeout\<lparr>poll_ret := 2, revents0 := POLLIN, revents2 := POLLIN,
       received_device := None, mixer_handle_events_ret := - 32, dwlbSend_ret := 60\<rparr>"

text \<open>
  A netlink socket on which nothing is ever dispatched, and a system whose only interface
  is a wireless one that answers in this way.
\<close>

definition rx_silent :: "nat \<Rightarrow> nl_callback list" where
  "rx_silent k = []"

definition silent_status :: status_env where
  "silent_status =
     \<lparr>clock_now = Strftime ''30-10-2026 14:37'', sysfs = (\<lambda>path. None),
      net_now =
        \<lparr>getifaddrs = Some
           [\<lparr>ifa_name = ''wlan0'', ifa_addr = Some AF_INET, IFF_LOOPBACK = False,
             IFF_POINTOPOINT = False, IFF_RUNNING = True\<rparr>],
         if_nametoindex = (\<lambda>name. 3), ethtool_of = (\<lambda>name. Socket_failed),
         nlmsg_alloc_ok = True, wifi_rx = (\<lambda>name. rx_silent), stack_displayStatus = []\<rparr>\<rparr>"



text \<open>
  A wireless interface that is up and has an address but is associated with no station: the
  dump of stations that the kernel sends is empty, so the only callback is the one for the
  end of the dump. \<^verbatim>\<open>rx_signal_absent\<close> is the dump of one station whose information has no
  signal attribute.
\<close>

definition rx_signal_absent :: "nat \<Rightarrow> nl_callback list" where
  "rx_signal_absent k = [NL_CB_VALID (Sta_info None), NL_CB_FINISH]"

definition unassociated_net :: net_env where
  "unassociated_net =
     \<lparr>getifaddrs = Some
        [\<lparr>ifa_name = ''wlan0'', ifa_addr = Some AF_INET, IFF_LOOPBACK = False,
          IFF_POINTOPOINT = False, IFF_RUNNING = True\<rparr>],
      if_nametoindex = (\<lambda>name. 3), ethtool_of = (\<lambda>name. Socket_failed),
      nlmsg_alloc_ok = True, wifi_rx = (\<lambda>name. rx_finish_only), stack_displayStatus = []\<rparr>"

text \<open>A backlight whose brightness, times 100, does not fit in a \<^verbatim>\<open>long\<close>.\<close>

definition bright_change :: udev_device where
  "bright_change =
     \<lparr>dev_subsystem = Some ''backlight'', dev_action = ''change'',
      dev_sysname = ''intel_backlight'',
      dev_sysattr = (\<lambda>a. if a = ''actual_brightness'' then Some ''92233720368547759''
                          else if a = ''max_brightness'' then Some ''100'' else None)\<rparr>"

section \<open>Lengths of elements and slots\<close>









section \<open>Composition\<close>








section \<open>Elements of the periodic status\<close>

lemma snprintf_nonempty: "1 < n \<Longrightarrow> t \<noteq> [] \<Longrightarrow> snprintf n t \<noteq> []"
  by (cases t) (auto simp: snprintf_def)

lemma take_snprintf: "k < n \<Longrightarrow> take k (snprintf n t) = take k t"
proof -
  assume "k < n"
  then have "min k (n - 1) = k" by simp
  then show ?thesis by (simp add: snprintf_def)
qed


text \<open>
  C6, as the code has it. In every periodic status composition: a battery capacity above
  15 gives the unmarked element \<^verbatim>\<open>bat:N% \<close>; a capacity of at most 15 other than the
  sentinel \<open>-1\<close> gives the element with the marker, \<^verbatim>\<open>[!]bat:N% \<close>; the capacity \<open>-1\<close>
  gives no battery element; the power element is present exactly when the power computed
  from \<^verbatim>\<open>power_now\<close> is strictly positive. The temperature element is absent only when no
  thermal path is passed; with a path it is always present, and a temperature read as the
  sentinel \<open>-1\<close> is printed as \<^verbatim>\<open>tmp:-1C \<close>.
\<close>

theorem status_elements_policy:
  assumes "getStatusInfo_elements env cap pow th nl w = Some (e, nl', w')"
  shows "(15 < getSysInfo (sysfs env) cap \<longrightarrow>
            bat e = snprintf MX_ELEMENT_CHARS
                      (''bat:'' @ dec_int (getSysInfo (sysfs env) cap) @ ''% '')
            \<and> take 4 (bat e) = ''bat:'')
    \<and> (getSysInfo (sysfs env) cap \<le> 15 \<and> getSysInfo (sysfs env) cap \<noteq> - 1 \<longrightarrow>
            bat e = snprintf MX_ELEMENT_CHARS
                      (''[!]bat:'' @ dec_int (getSysInfo (sysfs env) cap) @ ''% '')
            \<and> take 3 (bat e) = ''[!]'')
    \<and> (getSysInfo (sysfs env) cap = - 1 \<longrightarrow> bat e = [])
    \<and> (pwr e \<noteq> [] \<longleftrightarrow> 0 < c_div (getSysInfo (sysfs env) pow) 1000000)
    \<and> (th = None \<longrightarrow> tmp e = [])
    \<and> (\<forall>path. th = Some path \<longrightarrow>
            tmp e = snprintf MX_ELEMENT_CHARS
                      (''tmp:'' @ dec_int (getTmpInfo (sysfs env) path) @ ''C '')
            \<and> tmp e \<noteq> [])
    \<and> (\<forall>path. th = Some path \<and> getSysInfo (sysfs env) path = - 1 \<longrightarrow> tmp e = ''tmp:-1C '')"
proof -
  obtain net0 where e: "e =
      \<lparr>net = net0,
       tmp = (case th of
                None \<Rightarrow> []
              | Some path \<Rightarrow>
                  snprintf MX_ELEMENT_CHARS
                    (''tmp:'' @ dec_int (getTmpInfo (sysfs env) path) @ ''C'' @ [si_separator])),
       pwr = (if c_div (getSysInfo (sysfs env) pow) 1000000 > 0
              then snprintf MX_ELEMENT_CHARS
                     (''pwr:'' @ dec_int (c_div (getSysInfo (sysfs env) pow) 1000000) @ ''W''
                        @ [si_separator])
              else []),
       bat = (if getSysInfo (sysfs env) cap > 15
              then snprintf MX_ELEMENT_CHARS
                     (''bat:'' @ dec_int (getSysInfo (sysfs env) cap) @ ''%'' @ [si_separator])
              else if getSysInfo (sysfs env) cap \<noteq> - 1
              then snprintf MX_ELEMENT_CHARS
                     (''[!]bat:'' @ dec_int (getSysInfo (sysfs env) cap) @ ''%'' @ [si_separator])
              else []),
       tml = getTime (clock_now env)\<rparr>"
    using assms
    by (auto simp: getStatusInfo_elements_def Let_def split: option.splits if_splits)
  have bat_hi: "15 < getSysInfo (sysfs env) cap \<longrightarrow>
            bat e = snprintf MX_ELEMENT_CHARS
                      (''bat:'' @ dec_int (getSysInfo (sysfs env) cap) @ ''% '')
            \<and> take 4 (bat e) = ''bat:''"
    by (simp add: e si_separator_def take_snprintf MX_ELEMENT_CHARS_def)
  have bat_lo: "getSysInfo (sysfs env) cap \<le> 15 \<and> getSysInfo (sysfs env) cap \<noteq> - 1 \<longrightarrow>
            bat e = snprintf MX_ELEMENT_CHARS
                      (''[!]bat:'' @ dec_int (getSysInfo (sysfs env) cap) @ ''% '')
            \<and> take 3 (bat e) = ''[!]''"
    by (simp add: e si_separator_def take_snprintf MX_ELEMENT_CHARS_def)
  have bat_none: "getSysInfo (sysfs env) cap = - 1 \<longrightarrow> bat e = []"
    by (simp add: e)
  have pwr: "pwr e \<noteq> [] \<longleftrightarrow> 0 < c_div (getSysInfo (sysfs env) pow) 1000000"
    by (simp add: e snprintf_nonempty MX_ELEMENT_CHARS_def)
  have tmp_none: "th = None \<longrightarrow> tmp e = []"
    by (simp add: e)
  have tmp_some: "\<forall>path. th = Some path \<longrightarrow>
            tmp e = snprintf MX_ELEMENT_CHARS
                      (''tmp:'' @ dec_int (getTmpInfo (sysfs env) path) @ ''C '')
            \<and> tmp e \<noteq> []"
    by (simp add: e si_separator_def snprintf_nonempty MX_ELEMENT_CHARS_def)
  have m1: "dec_int (- 1) = ''-1''"
    by code_simp
  have tmp_sentinel: "\<forall>path. th = Some path \<and> getSysInfo (sysfs env) path = - 1
      \<longrightarrow> tmp e = ''tmp:-1C ''"
    by (simp add: e si_separator_def getTmpInfo_def m1 snprintf_def MX_ELEMENT_CHARS_def)
  show ?thesis
    using bat_hi bat_lo bat_none pwr tmp_none tmp_some tmp_sentinel by blast
qed


theorem status_elements_policy_witness:
  "getSysInfo (sysfs (example_status (Some 10) (Some 7250000) (Some 41000)))
     sysfsBatteryCapacity = 10
   \<and> take 3 (bat low_battery_elements) = ''[!]''
   \<and> pwr low_battery_elements \<noteq> []
   \<and> tmp low_battery_elements \<noteq> []"
proof -
  have ev: "getStatusInfo_elements (example_status (Some 10) (Some 7250000) (Some 41000))
       sysfsBatteryCapacity sysfsBatteryPowerNow (Some example_thermal) nl_unresolved
       example_wStats
     = Some (low_battery_elements, nl_unresolved, example_wStats)"
    by code_simp
  have cap: "getSysInfo (sysfs (example_status (Some 10) (Some 7250000) (Some 41000)))
     sysfsBatteryCapacity = 10"
    by code_simp
  have pow: "c_div (getSysInfo (sysfs (example_status (Some 10) (Some 7250000) (Some 41000)))
     sysfsBatteryPowerNow) 1000000 = 7"
    by code_simp
  have lo: "getSysInfo (sysfs (example_status (Some 10) (Some 7250000) (Some 41000)))
     sysfsBatteryCapacity \<le> 15
    \<and> getSysInfo (sysfs (example_status (Some 10) (Some 7250000) (Some 41000)))
     sysfsBatteryCapacity \<noteq> - 1"
    using cap by simp
  have pw: "0 < c_div (getSysInfo (sysfs (example_status (Some 10) (Some 7250000) (Some 41000)))
     sysfsBatteryPowerNow) 1000000"
    using pow by simp
  from status_elements_policy [OF ev] lo pw cap show ?thesis
    by blast
qed

text \<open>
  C6 as stated fails for the temperature: with the thermal file unreadable,
  \<^verbatim>\<open>getSysInfo\<close> gives the sentinel \<open>-1\<close>, and the temperature element is
  \<^verbatim>\<open>tmp:-1C \<close>, not absent.
\<close>

theorem temperature_sentinel_shown:
  "getSysInfo (sysfs (example_status (Some 50) None None)) example_thermal = - 1
   \<and> map_option (tmp \<circ> fst)
        (getStatusInfo_elements (example_status (Some 50) None None) sysfsBatteryCapacity
           sysfsBatteryPowerNow (Some example_thermal) nl_unresolved example_wStats)
       = Some ''tmp:-1C ''"
  by code_simp

section \<open>The network element without nl80211\<close>

lemma drain_udev_keeps:
  "drain_udev s p = Some s' \<Longrightarrow>
     nlData s' = nlData s \<and> wStats s' = wStats s \<and> timeout s' = timeout s
       \<and> volumeLevel s' = volumeLevel s"
  by (auto simp: drain_udev_def split: if_splits option.splits)

lemma drain_mixer_keeps:
  "nlData (drain_mixer s p) = nlData s \<and> wStats (drain_mixer s p) = wStats s
     \<and> timeout (drain_mixer s p) = timeout s
     \<and> udevDisplayInfo (drain_mixer s p) = udevDisplayInfo s"
  by (auto simp: drain_mixer_def Let_def split: option.splits)

lemma getStatusInfo_elements_unresolved:
  "nl_id nl < 0 \<Longrightarrow>
     \<exists>e. net e = []
       \<and> getStatusInfo_elements env cap pow th nl w = Some (e, nl, w)"
  by (simp add: getStatusInfo_elements_def Let_def)

lemma getStatusInfo_elements_net_irrelevant:
  "nl_id nl < 0 \<Longrightarrow>
     getStatusInfo_elements (env\<lparr>net_now := n\<rparr>) cap pow th nl w
       = getStatusInfo_elements env cap pow th nl w"
  by (simp add: getStatusInfo_elements_def Let_def split: option.split)

lemma refresh_unresolved:
  assumes "nl_id (nlData s) < 0"
  shows "\<exists>e. net e = []
       \<and> getStatusInfo_elements (status_now p) sysfsBatteryCapacity sysfsBatteryPowerNow
            (Some (sysfsThermalPath cfg)) (nlData s) (wStats s) = Some (e, nlData s, wStats s)
       \<and> emitted (refresh cfg s p) = [status_line e]
       \<and> (\<forall>s'. state_after (refresh cfg s p) = Some s' \<longrightarrow> nlData s' = nlData s)"
proof -
  obtain e where e: "net e = []"
    "getStatusInfo_elements (status_now p) sysfsBatteryCapacity sysfsBatteryPowerNow
            (Some (sysfsThermalPath cfg)) (nlData s) (wStats s) = Some (e, nlData s, wStats s)"
    using getStatusInfo_elements_unresolved [OF assms] by blast
  then have "emitted (refresh cfg s p) = [status_line e]
       \<and> (\<forall>s'. state_after (refresh cfg s p) = Some s' \<longrightarrow> nlData s' = nlData s)"
    by (auto simp: refresh_def getStatusInfo_def emitted_def state_after_def Let_def)
  with e show ?thesis by blast
qed

lemma refresh_net_irrelevant:
  "nl_id (nlData s) < 0 \<Longrightarrow>
     refresh cfg s (p\<lparr>status_now := (status_now p)\<lparr>net_now := n\<rparr>\<rparr>) = refresh cfg s p"
  by (simp add: refresh_def getStatusInfo_def getStatusInfo_elements_net_irrelevant
        split: option.split)

lemma main_loop_body_nlData:
  assumes "nl_id (nlData s) < 0" and "main_loop_body cfg s p = Next s' out"
  shows "nlData s' = nlData s"
proof -
  have r: "\<And>x. nlData x = nlData s \<Longrightarrow> refresh cfg x p = Next s' out \<Longrightarrow> nlData s' = nlData s"
  proof -
    fix x assume x: "nlData x = nlData s" and n: "refresh cfg x p = Next s' out"
    have "nl_id (nlData x) < 0" using x assms(1) by simp
    from refresh_unresolved [OF this, of p cfg] n x show "nlData s' = nlData s"
      by (auto simp: state_after_def)
  qed
  show ?thesis
  proof (cases "poll_ret p > 0")
    case False
    then show ?thesis using assms(2) r [of s] by (auto simp: main_loop_body_def split: if_splits)
  next
    case True
    then obtain s2 where d: "drain_udev (s\<lparr>sBuf := [], volumeLevel := []\<rparr>) p = Some s2"
      using assms(2) by (auto simp: main_loop_body_def split: if_splits option.splits)
    have k2: "nlData s2 = nlData s" using drain_udev_keeps [OF d] by simp
    have k3: "nlData (drain_mixer s2 p) = nlData s" using drain_mixer_keeps [of s2 p] k2 by simp
    show ?thesis
      using assms(2) True d k3 r [of "drain_mixer s2 p"]
      by (auto simp: main_loop_body_def Let_def split: if_splits)
  qed
qed

lemma poll_calls_nlData:
  "nl_id (nlData s) < 0 \<Longrightarrow> \<forall>x \<in> set (poll_calls cfg s ps). nlData x = nlData s"
proof (induction ps arbitrary: s)
  case Nil
  then show ?case by simp
next
  case (Cons p ps)
  show ?case
  proof (cases "main_loop_body cfg s p")
    case (Next s' out)
    have eq: "nlData s' = nlData s" using main_loop_body_nlData [OF Cons.prems Next] .
    then have "nl_id (nlData s') < 0" using Cons.prems by simp
    from Cons.IH [OF this] eq Next show ?thesis by simp
  qed simp_all
qed


text \<open>
  C10. When \<^verbatim>\<open>nlData.id\<close> is negative as the loop is entered, it is negative at every
  \<^verbatim>\<open>poll\<close> call of the run, and in each of these states the periodic status has an empty
  network element: \<^verbatim>\<open>getNetwork\<close> is not called, so the line handed to \<^verbatim>\<open>sbOut\<close> is the
  same whatever interfaces, ethernet or bridge included, the system reports. A failed
  family resolution leaves \<^verbatim>\<open>nlData.id\<close> negative in \<^verbatim>\<open>init_nl80211\<close>.
\<close>

theorem no_network_without_nl80211:
  assumes "nl_id (nlData s0) < 0"
  shows "(\<forall>s \<in> set (main_loop exit_request cfg s0 ps).
            nl_id (nlData s) < 0
            \<and> (\<forall>p. \<exists>e. net e = []
                  \<and> getStatusInfo_elements (status_now p) sysfsBatteryCapacity
                       sysfsBatteryPowerNow (Some (sysfsThermalPath cfg)) (nlData s) (wStats s)
                      = Some (e, nlData s, wStats s)
                  \<and> emitted (refresh cfg s p) = [status_line e])
            \<and> (\<forall>p n. refresh cfg s (p\<lparr>status_now := (status_now p)\<lparr>net_now := n\<rparr>\<rparr>)
                      = refresh cfg s p))
    \<and> (\<forall>socket_ok connect_ret resolve_ret cb_ok.
          resolve_ret < 0 \<longrightarrow> snd (init_nl80211 socket_ok connect_ret resolve_ret cb_ok) < 0)"
proof -
  have init: "\<forall>socket_ok connect_ret resolve_ret cb_ok.
          resolve_ret < 0 \<longrightarrow> snd (init_nl80211 socket_ok connect_ret resolve_ret cb_ok) < 0"
    by (simp add: init_nl80211_def)
  have "\<forall>s \<in> set (main_loop exit_request cfg s0 ps).
            nl_id (nlData s) < 0
            \<and> (\<forall>p. \<exists>e. net e = []
                  \<and> getStatusInfo_elements (status_now p) sysfsBatteryCapacity
                       sysfsBatteryPowerNow (Some (sysfsThermalPath cfg)) (nlData s) (wStats s)
                      = Some (e, nlData s, wStats s)
                  \<and> emitted (refresh cfg s p) = [status_line e])
            \<and> (\<forall>p n. refresh cfg s (p\<lparr>status_now := (status_now p)\<lparr>net_now := n\<rparr>\<rparr>)
                      = refresh cfg s p)"
  proof
    fix s assume "s \<in> set (main_loop exit_request cfg s0 ps)"
    then have "s \<in> set (poll_calls cfg s0 ps)"
      by (simp add: main_loop_def split: if_splits)
    then have "nlData s = nlData s0" using poll_calls_nlData [OF assms] by blast
    then have neg: "nl_id (nlData s) < 0" using assms by simp
    show "nl_id (nlData s) < 0
            \<and> (\<forall>p. \<exists>e. net e = []
                  \<and> getStatusInfo_elements (status_now p) sysfsBatteryCapacity
                       sysfsBatteryPowerNow (Some (sysfsThermalPath cfg)) (nlData s) (wStats s)
                      = Some (e, nlData s, wStats s)
                  \<and> emitted (refresh cfg s p) = [status_line e])
            \<and> (\<forall>p n. refresh cfg s (p\<lparr>status_now := (status_now p)\<lparr>net_now := n\<rparr>\<rparr>)
                      = refresh cfg s p)"
      using neg refresh_unresolved [OF neg] refresh_net_irrelevant [OF neg] by blast
  qed
  with init show ?thesis by blast
qed

theorem no_network_without_nl80211_witness:
  "nl_id (nlData example_reactor) < 0
   \<and> last (main_loop False example_config example_reactor [pass_timeout])
         \<in> set (main_loop False example_config example_reactor [pass_timeout])
   \<and> nl_id (nlData (last (main_loop False example_config example_reactor [pass_timeout]))) < 0
   \<and> emitted (refresh example_config example_reactor pass_timeout)
       = [''tmp:41C pwr:7W [!]bat:10% 30-10-2026 14:37'']"
proof -
  have 1: "nl_id (nlData example_reactor) < 0"
    by code_simp
  have 2: "last (main_loop False example_config example_reactor [pass_timeout])
         \<in> set (main_loop False example_config example_reactor [pass_timeout])"
    by code_simp
  have 3: "emitted (refresh example_config example_reactor pass_timeout)
       = [''tmp:41C pwr:7W [!]bat:10% 30-10-2026 14:37'']"
    by code_simp
  from no_network_without_nl80211 [OF 1, of False example_config "[pass_timeout]"] 1 2 3
  show ?thesis by blast
qed

text \<open>
  For comparison: with the family resolved, the same system state gives a network element
  for the ethernet and for the wireless interface.
\<close>

lemma network_shown_with_nl80211:
  "map_option (net \<circ> fst)
     (getStatusInfo_elements (example_status (Some 10) (Some 7250000) (Some 41000))
        sysfsBatteryCapacity sysfsBatteryPowerNow (Some example_thermal) nl_resolved
        example_wStats)
     = Some ''e2:1000M w3:-50dBm ''"
  by code_simp

section \<open>Device-change dispatch\<close>

lemma udevStatus_dispatch_writes:
  "udevStatus_dispatch dev sub tbl i d = Some d' \<Longrightarrow>
     length (d_slots d') = length (d_slots d)
     \<and> (\<exists>ws. d_written d' = d_written d @ ws \<and> distinct ws
            \<and> (\<forall>k \<in> set ws. i \<le> k \<and> k < i + length tbl)
            \<and> (\<forall>k. k \<notin> set ws \<longrightarrow> d_slots d' ! k = d_slots d ! k))"
proof (induction tbl arbitrary: i d)
  case Nil
  then show ?case by simp
next
  case (Cons a tbl)
  obtain subSystem func where a: "a = (subSystem, func)" by (cases a)
  show ?case
  proof (cases "i < MX_NUMBER_ELEMENTS \<and> subSystem = sub")
    case False
    then consider "\<not> i < MX_NUMBER_ELEMENTS" | "i < MX_NUMBER_ELEMENTS" "subSystem \<noteq> sub"
      by blast
    then show ?thesis
    proof cases
      case 1
      then have "d' = d" using Cons.prems a by simp
      then show ?thesis by simp
    next
      case 2
      then have "udevStatus_dispatch dev sub tbl (i + 1) d = Some d'"
        using Cons.prems a by simp
      from Cons.IH [OF this] obtain ws where ws:
        "length (d_slots d') = length (d_slots d)"
        "d_written d' = d_written d @ ws" "distinct ws"
        "\<forall>k \<in> set ws. i + 1 \<le> k \<and> k < i + 1 + length tbl"
        "\<forall>k. k \<notin> set ws \<longrightarrow> d_slots d' ! k = d_slots d ! k"
        by blast
      have "\<forall>k \<in> set ws. i \<le> k \<and> k < i + length (a # tbl)"
        using ws(4) by auto
      then show ?thesis using ws by blast
    qed
  next
    case True
    then obtain r w where f: "func dev = Some (r, w)"
      using Cons.prems a by (cases "func dev") auto
    show ?thesis
    proof (cases w)
      case None
      then have "udevStatus_dispatch dev sub tbl (i + 1) (d\<lparr>d_ret := r\<rparr>) = Some d'"
        using Cons.prems a True f by simp
      from Cons.IH [OF this] obtain ws where ws:
        "length (d_slots d') = length (d_slots d)"
        "d_written d' = d_written d @ ws" "distinct ws"
        "\<forall>k \<in> set ws. i + 1 \<le> k \<and> k < i + 1 + length tbl"
        "\<forall>k. k \<notin> set ws \<longrightarrow> d_slots d' ! k = d_slots d ! k"
        by auto
      have "\<forall>k \<in> set ws. i \<le> k \<and> k < i + length (a # tbl)"
        using ws(4) by auto
      then show ?thesis using ws by blast
    next
      case (Some t)
      let ?d2 = "d\<lparr>d_ret := r, d_slots := (d_slots d)[i := t], d_written := d_written d @ [i]\<rparr>"
      have "udevStatus_dispatch dev sub tbl (i + 1) ?d2 = Some d'"
        using Cons.prems a True f Some by simp
      from Cons.IH [OF this] obtain ws where ws:
        "length (d_slots d') = length (d_slots d)"
        "d_written d' = d_written d @ [i] @ ws" "distinct ws"
        "\<forall>k \<in> set ws. i + 1 \<le> k \<and> k < i + 1 + length tbl"
        "\<forall>k. k \<notin> set ws \<longrightarrow> d_slots d' ! k = (d_slots d)[i := t] ! k"
        by auto
      have 1: "distinct (i # ws)" using ws(3,4) by auto
      have 2: "\<forall>k \<in> set (i # ws). i \<le> k \<and> k < i + length (a # tbl)"
        using ws(4) by auto
      have 3: "\<forall>k. k \<notin> set (i # ws) \<longrightarrow> d_slots d' ! k = d_slots d ! k"
        using ws(5) by auto
      have 4: "d_written d' = d_written d @ (i # ws)" using ws(2) by simp
      show ?thesis using ws(1) 1 2 3 4 by blast
    qed
  qed
qed

lemma udevStatus_writes:
  assumes "udevStatus buf slots dev = Some r"
  shows "distinct (ur_written r)
    \<and> (\<forall>k. k \<notin> set (ur_written r) \<longrightarrow> ur_slots r ! k = slots ! k)
    \<and> length (ur_slots r) = length slots
    \<and> (dev_subsystem dev \<noteq> None \<longrightarrow>
          ur_sBuf r = udevStatus_concat (ur_slots r) 0 (int MX_STATUS_CHARS) buf)"
proof (cases "dev_subsystem dev")
  case None
  then have "r = \<lparr>ur_ret = - 1, ur_sBuf = buf, ur_slots = slots, ur_written = []\<rparr>"
    using assms by (simp add: udevStatus_def)
  then show ?thesis using None by simp
next
  case (Some sub)
  let ?d0 = "\<lparr>d_ret = - 1, d_slots = slots, d_written = []\<rparr>"
  let ?run = "if ''change'' = dev_action dev
              then udevStatus_dispatch dev sub udevActions 0 ?d0 else Some ?d0"
  obtain d where d: "?run = Some d"
    using assms Some by (cases ?run) (simp_all add: udevStatus_def)
  have "length (d_slots d) = length (d_slots ?d0)
     \<and> (\<exists>ws. d_written d = d_written ?d0 @ ws \<and> distinct ws
            \<and> (\<forall>k \<in> set ws. 0 \<le> k \<and> k < 0 + length udevActions)
            \<and> (\<forall>k. k \<notin> set ws \<longrightarrow> d_slots d ! k = d_slots ?d0 ! k))"
  proof (cases "''change'' = dev_action dev")
    case True
    then have "udevStatus_dispatch dev sub udevActions 0 ?d0 = Some d" using d by simp
    then show ?thesis by (rule udevStatus_dispatch_writes)
  next
    case False
    then have "d = ?d0" using d by simp
    then show ?thesis by simp
  qed
  then have len: "length (d_slots d) = length slots"
    and dist: "distinct (d_written d)"
    and low: "\<forall>k \<in> set (d_written d). k < 3"
    and same: "\<forall>k. k \<notin> set (d_written d) \<longrightarrow> d_slots d ! k = slots ! k"
    by (auto simp: udevActions_def)
  let ?last = "MX_NUMBER_ELEMENTS - 1"
  let ?d' = "if d_ret d = - 1 then
               d\<lparr>d_slots := (d_slots d)[?last :=
                    snprintf MX_ELEMENT_CHARS
                      (sub @ '': '' @ dev_sysname dev @ '': '' @ dev_action dev @ '' '')],
                 d_written := d_written d @ [?last]\<rparr>
             else d"
  have r: "r = \<lparr>ur_ret = 0,
                ur_sBuf = udevStatus_concat (d_slots ?d') 0 (int MX_STATUS_CHARS) buf,
                ur_slots = d_slots ?d', ur_written = d_written ?d'\<rparr>"
    using assms Some d by (simp add: udevStatus_def Let_def)
  have five: "?last = 5"
    by (simp add: MX_NUMBER_ELEMENTS_def MX_STATUS_CHARS_def MX_ELEMENT_CHARS_def)
  have "5 \<notin> set (d_written d)" using low by auto
  then show ?thesis
    using r len dist same Some five by auto
qed

lemma take_length_eq_iff: "take (length sub) s = sub \<longleftrightarrow> (\<exists>q. s = sub @ q)"
proof
  assume "take (length sub) s = sub"
  then have "s = sub @ drop (length sub) s"
    by (metis append_take_drop_id)
  then show "\<exists>q. s = sub @ q" ..
next
  assume "\<exists>q. s = sub @ q"
  then show "take (length sub) s = sub" by auto
qed

lemma contains_iff: "contains s sub \<longleftrightarrow> (\<exists>p q. s = p @ sub @ q)"
proof (induction s)
  case Nil
  then show ?case by auto
next
  case (Cons c cs)
  have "(\<exists>p q. c # cs = p @ sub @ q)
      \<longleftrightarrow> (\<exists>q. c # cs = sub @ q) \<or> (\<exists>p q. cs = p @ sub @ q)"
  proof
    assume "\<exists>p q. c # cs = p @ sub @ q"
    then obtain p q where pq: "c # cs = p @ sub @ q" by blast
    show "(\<exists>q. c # cs = sub @ q) \<or> (\<exists>p q. cs = p @ sub @ q)"
    proof (cases p)
      case Nil
      then show ?thesis using pq by auto
    next
      case (Cons x p')
      then have "cs = p' @ sub @ q" using pq by simp
      then show ?thesis by blast
    qed
  next
    assume "(\<exists>q. c # cs = sub @ q) \<or> (\<exists>p q. cs = p @ sub @ q)"
    then show "\<exists>p q. c # cs = p @ sub @ q"
    proof
      assume "\<exists>q. c # cs = sub @ q"
      then obtain q where "c # cs = [] @ sub @ q" by auto
      then show ?thesis by blast
    next
      assume "\<exists>p q. cs = p @ sub @ q"
      then obtain p q where "c # cs = (c # p) @ sub @ q" by auto
      then show ?thesis by blast
    qed
  qed
  then show ?case using Cons.IH take_length_eq_iff [of sub "c # cs"] by simp
qed

lemma backlight_50:
  "dec_int (c_div (long_wrap (100 * atol ''50'')) (atol ''100'')) = ''50''
   \<and> atol ''100'' \<noteq> 0 \<and> atol ''100'' \<noteq> - 1"
  by code_simp

text \<open>
  The arithmetic of \<^verbatim>\<open>backlightStatus\<close> is that of \<^verbatim>\<open>long\<close>: \<^verbatim>\<open>atol\<close> stops at the ends of the
  range, and the product with 100 wraps around.
\<close>

lemma backlight_long_arithmetic:
  "atol ''99999999999999999999'' = LONG_MAX
   \<and> atol ''-99999999999999999999'' = LONG_MIN
   \<and> backlightStatus bright_change = Some (0, Some ''LCD: -92233720368547757% '')"
proof -
  have a: "atol ''99999999999999999999'' = LONG_MAX"
    "atol ''-99999999999999999999'' = LONG_MIN"
    "atol ''92233720368547759'' = 92233720368547759" "atol ''100'' = 100"
    by code_simp+
  have w: "long_wrap 9223372036854775900 = - 9223372036854775716"
    by (simp add: long_wrap_def)
  have d: "c_div (- 9223372036854775716) 100 = - 92233720368547757"
    by (simp add: c_div_def)
  have n: "dec_int (- 92233720368547757) = ''-92233720368547757''"
    by (simp add: dec_int_def dec_nat.simps [of "numeral k" for k] digit_char_def)
  have "backlightStatus bright_change = Some (0, Some ''LCD: -92233720368547757% '')"
    by (simp add: backlightStatus_def bright_change_def a w d n LONG_MIN_def snprintf_def
        MX_ELEMENT_CHARS_def si_separator_def)
  with a show ?thesis by simp
qed

lemma udevStatus_backlight:
  assumes "dev_subsystem dev = Some ''backlight''" and "dev_action dev = ''change''"
    and "dev_sysattr dev ''actual_brightness'' = Some ''50''"
    and "dev_sysattr dev ''max_brightness'' = Some ''100''"
  shows "udevStatus buf slots dev =
     Some \<lparr>ur_ret = 0,
           ur_sBuf = udevStatus_concat (slots[0 := ''LCD: 50% '']) 0 (int MX_STATUS_CHARS) buf,
           ur_slots = slots[0 := ''LCD: 50% ''], ur_written = [0]\<rparr>"
proof -
  have h: "backlightStatus dev = Some (0, Some ''LCD: 50% '')"
    using assms(3,4) backlight_50
    by (simp add: backlightStatus_def snprintf_def MX_ELEMENT_CHARS_def si_separator_def)
  have n: "0 < MX_NUMBER_ELEMENTS" "1 < MX_NUMBER_ELEMENTS" "2 < MX_NUMBER_ELEMENTS"
    by (simp_all add: MX_NUMBER_ELEMENTS_def MX_STATUS_CHARS_def MX_ELEMENT_CHARS_def)
  have "udevStatus_dispatch dev ''backlight'' udevActions 0
          \<lparr>d_ret = - 1, d_slots = slots, d_written = []\<rparr>
        = Some \<lparr>d_ret = 0, d_slots = slots[0 := ''LCD: 50% ''], d_written = [0]\<rparr>"
    using h n by (simp add: udevActions_def)
  then show ?thesis
    using assms(1,2) by (simp add: udevStatus_def)
qed

lemma udevStatus_foo:
  assumes "dev_subsystem dev = Some ''foo''" and "dev_action dev = ''change''"
  shows "udevStatus buf slots dev =
     Some \<lparr>ur_ret = 0,
           ur_sBuf = udevStatus_concat
                       (slots[5 := take 31 (''foo: '' @ dev_sysname dev @ '': change '')])
                       0 (int MX_STATUS_CHARS) buf,
           ur_slots = slots[5 := take 31 (''foo: '' @ dev_sysname dev @ '': change '')],
           ur_written = [5]\<rparr>"
proof -
  have n: "0 < MX_NUMBER_ELEMENTS" "1 < MX_NUMBER_ELEMENTS" "2 < MX_NUMBER_ELEMENTS"
    "MX_NUMBER_ELEMENTS - 1 = 5"
    by (simp_all add: MX_NUMBER_ELEMENTS_def MX_STATUS_CHARS_def MX_ELEMENT_CHARS_def)
  have "udevStatus_dispatch dev ''foo'' udevActions 0
          \<lparr>d_ret = - 1, d_slots = slots, d_written = []\<rparr>
        = Some \<lparr>d_ret = - 1, d_slots = slots, d_written = []\<rparr>"
    using n by (simp add: udevActions_def)
  then show ?thesis
    using assms n(4) by (simp add: udevStatus_def snprintf_def MX_ELEMENT_CHARS_def)
qed

lemma foo_fragment:
  "contains (take 31 (''foo: '' @ name @ '': change '')) ''foo''
   \<and> (length name \<le> 17 \<longrightarrow> contains (take 31 (''foo: '' @ name @ '': change '')) ''change'')"
proof -
  have "take 31 (''foo: '' @ name @ '': change '') = [] @ ''foo'' @ take 28 ('': '' @ name @ '': change '')"
    by simp
  then have 1: "contains (take 31 (''foo: '' @ name @ '': change '')) ''foo''"
    unfolding contains_iff by blast
  have 2: "contains (take 31 (''foo: '' @ name @ '': change '')) ''change''"
    if "length name \<le> 17"
  proof -
    have "take 31 (''foo: '' @ name @ '': change '') = (''foo: '' @ name @ '': '') @ ''change'' @ '' ''"
      using that by simp
    then show ?thesis unfolding contains_iff by blast
  qed
  show ?thesis using 1 2 by blast
qed

text \<open>
  C8, as the code has it. A record with subsystem \<^verbatim>\<open>backlight\<close>, action \<^verbatim>\<open>change\<close>,
  \<^verbatim>\<open>actual_brightness=50\<close> and \<^verbatim>\<open>max_brightness=100\<close> makes the dispatch store
  \<^verbatim>\<open>LCD: 50% \<close> in the backlight slot (slot 0) and in no other slot. A record with the
  unregistered subsystem \<^verbatim>\<open>foo\<close> and action \<^verbatim>\<open>change\<close> makes it store, in the last slot
  only, the first 31 characters of \<^verbatim>\<open>foo: <sysname>: change \<close>; that text contains
  \<^verbatim>\<open>foo\<close>, and it contains the action string when the name of the device has at most 17
  characters.
\<close>

theorem device_change_fragments:
  assumes "dev_subsystem b = Some ''backlight''" and "dev_action b = ''change''"
    and "dev_sysattr b ''actual_brightness'' = Some ''50''"
    and "dev_sysattr b ''max_brightness'' = Some ''100''"
    and "dev_subsystem f = Some ''foo''" and "dev_action f = ''change''"
  shows "map_option ur_slots (udevStatus buf slots b) = Some (slots[0 := ''LCD: 50% ''])
    \<and> map_option ur_written (udevStatus buf slots b) = Some [0]
    \<and> map_option ur_slots (udevStatus buf slots f)
        = Some (slots[MX_NUMBER_ELEMENTS - 1 :=
                  take 31 (''foo: '' @ dev_sysname f @ '': change '')])
    \<and> map_option ur_written (udevStatus buf slots f) = Some [MX_NUMBER_ELEMENTS - 1]
    \<and> contains (take 31 (''foo: '' @ dev_sysname f @ '': change '')) ''foo''
    \<and> (length (dev_sysname f) \<le> 17
         \<longrightarrow> contains (take 31 (''foo: '' @ dev_sysname f @ '': change '')) (dev_action f))"
proof -
  have five: "MX_NUMBER_ELEMENTS - 1 = 5"
    by (simp add: MX_NUMBER_ELEMENTS_def MX_STATUS_CHARS_def MX_ELEMENT_CHARS_def)
  show ?thesis
    using udevStatus_backlight [OF assms(1-4), of buf slots]
      udevStatus_foo [OF assms(5,6), of buf slots]
      foo_fragment [of "dev_sysname f"] assms(6) five
    by simp
qed

theorem device_change_fragments_witness:
  "map_option ur_slots (udevStatus [] (replicate 6 []) backlight_change)
     = Some [''LCD: 50% '', [], [], [], [], []]
   \<and> map_option ur_slots (udevStatus [] (replicate 6 []) (foo_change ''bar''))
     = Some [[], [], [], [], [], ''foo: bar: change '']
   \<and> contains ''foo: bar: change '' ''change''"
proof -
  have b: "dev_subsystem backlight_change = Some ''backlight''"
    "dev_action backlight_change = ''change''"
    "dev_sysattr backlight_change ''actual_brightness'' = Some ''50''"
    "dev_sysattr backlight_change ''max_brightness'' = Some ''100''"
    by (simp_all add: backlight_change_def)
  have f: "dev_subsystem (foo_change ''bar'') = Some ''foo''"
    "dev_action (foo_change ''bar'') = ''change''"
    by (simp_all add: foo_change_def)
  have n: "dev_sysname (foo_change ''bar'') = ''bar''" "MX_NUMBER_ELEMENTS - 1 = 5"
    by (simp_all add: foo_change_def MX_NUMBER_ELEMENTS_def MX_STATUS_CHARS_def
          MX_ELEMENT_CHARS_def)
  from device_change_fragments [OF b f, of "[]" "replicate 6 []"] n f(2)
  show ?thesis by (simp add: numeral_eq_Suc)
qed

text \<open>
  C8 as stated fails for the fallback: the device name stands between the subsystem and
  the action, and with a name of 25 characters the 31 characters of the slot end before the
  action string.
\<close>

theorem long_name_cuts_action:
  "map_option ur_slots (udevStatus [] (replicate 6 []) (foo_change ''a-device-with-a-long-name''))
     = Some [[], [], [], [], [], ''foo: a-device-with-a-long-name:'']
   \<and> dev_action (foo_change ''a-device-with-a-long-name'') = ''change''
   \<and> \<not> contains ''foo: a-device-with-a-long-name:'' ''change''"
  by code_simp

section \<open>The wireless query\<close>

lemma fold_nl_cb_call_fst:
  "fst (fold nl_cb_call cbs st)
     = (if NL_CB_FINISH \<in> set cbs then finish_handler (fst st) else fst st)"
proof (induction cbs arbitrary: st)
  case Nil
  then show ?case by simp
next
  case (Cons cb cbs)
  obtain nl w where st: "st = (nl, w)" by (cases st)
  show ?case
    by (cases cb) (simp_all add: Cons.IH st finish_handler_def)
qed

lemma fold_nl_cb_call_ifindex:
  "ifindex (snd (fold nl_cb_call cbs st)) = ifindex (snd st)"
proof (induction cbs arbitrary: st)
  case Nil
  then show ?case by simp
next
  case (Cons cb cbs)
  obtain nl w where st: "st = (nl, w)" by (cases st)
  show ?case
  proof (cases cb)
    case (NL_CB_VALID msg)
    then show ?thesis
      by (simp add: Cons.IH st getWifiStats_nl_cb_def split: sta_info.split option.split)
  qed (simp_all add: Cons.IH st)
qed

lemma fold_recorded_None:
  "fold (\<lambda>cb acc. case recorded cb of None \<Rightarrow> acc | Some v \<Rightarrow> Some v) cbs acc = None
     \<Longrightarrow> acc = None"
proof (induction cbs arbitrary: acc)
  case Nil
  then show ?case by simp
next
  case (Cons cb cbs)
  from Cons.prems have "(case recorded cb of None \<Rightarrow> acc | Some v \<Rightarrow> Some v) = None"
    by (simp add: Cons.IH)
  then show ?case by (simp split: option.splits)
qed

lemma fold_nl_cb_call_signal:
  "signal (snd (fold nl_cb_call cbs st))
     = (case fold (\<lambda>cb acc. case recorded cb of None \<Rightarrow> acc | Some v \<Rightarrow> Some v) cbs acc of
          None \<Rightarrow> signal (snd st)
        | Some v \<Rightarrow> v)"
  if "case acc of None \<Rightarrow> True | Some v \<Rightarrow> signal (snd st) = v"
  using that
proof (induction cbs arbitrary: st acc)
  case Nil
  then show ?case by (simp split: option.splits)
next
  case (Cons cb cbs)
  obtain nl w where st: "st = (nl, w)" by (cases st)
  let ?st' = "nl_cb_call cb st"
  let ?acc' = "case recorded cb of None \<Rightarrow> acc | Some v \<Rightarrow> Some v"
  have inv: "case ?acc' of None \<Rightarrow> True | Some v \<Rightarrow> signal (snd ?st') = v"
    using Cons.prems
    by (cases cb)
       (auto simp: st recorded_def getWifiStats_nl_cb_def split: sta_info.splits option.splits)
  have keep: "?acc' = None \<Longrightarrow> signal (snd ?st') = signal (snd st)"
    by (cases cb)
       (auto simp: st recorded_def getWifiStats_nl_cb_def split: sta_info.splits option.splits)
  have "signal (snd (fold nl_cb_call cbs ?st'))
     = (case fold (\<lambda>cb acc. case recorded cb of None \<Rightarrow> acc | Some v \<Rightarrow> Some v) cbs ?acc' of
          None \<Rightarrow> signal (snd ?st')
        | Some v \<Rightarrow> v)"
    by (rule Cons.IH [OF inv])
  moreover have "fold (\<lambda>cb acc. case recorded cb of None \<Rightarrow> acc | Some v \<Rightarrow> Some v) cbs ?acc' = None
     \<Longrightarrow> ?acc' = None"
    by (rule fold_recorded_None)
  ultimately show ?case
    using keep by (auto split: option.splits)
qed


lemma nl_recvmsgs_no_finish:
  "NL_CB_FINISH \<notin> set cbs \<Longrightarrow> fst (nl_recvmsgs cbs st) = fst st"
  by (simp add: nl_recvmsgs_def fold_nl_cb_call_fst)

lemma nl_recvmsgs_finish:
  "NL_CB_FINISH \<in> set cbs \<Longrightarrow> wlanStatsResult (fst (nl_recvmsgs cbs st)) = 0"
  by (simp add: nl_recvmsgs_def fold_nl_cb_call_fst finish_handler_def)

lemma nl_recvmsgs_nl_id: "nl_id (fst (nl_recvmsgs cbs st)) = nl_id (fst st)"
  by (simp add: nl_recvmsgs_def fold_nl_cb_call_fst finish_handler_def)

lemma getWifiStatus_wait_skip:
  "\<forall>i < n. NL_CB_FINISH \<notin> set (rx (k + i)) \<Longrightarrow> wlanStatsResult (fst st) > 0 \<Longrightarrow>
     getWifiStatus_wait rx k st
       = getWifiStatus_wait rx (k + n) (fold nl_recvmsgs (map rx [k..<k + n]) st)"
proof (induction n arbitrary: k st)
  case 0
  then show ?case by simp
next
  case (Suc n)
  have nofin: "NL_CB_FINISH \<notin> set (rx k)" using Suc.prems(1) by force
  then have pos: "wlanStatsResult (fst (nl_recvmsgs (rx k) st)) > 0"
    using Suc.prems(2) by (simp add: nl_recvmsgs_no_finish)
  have rest: "\<forall>i < n. NL_CB_FINISH \<notin> set (rx (Suc k + i))"
    using Suc.prems(1) by force
  have "getWifiStatus_wait rx k st = getWifiStatus_wait rx (Suc k) (nl_recvmsgs (rx k) st)"
    using Suc.prems(2) by (subst getWifiStatus_wait.simps) simp
  also have "\<dots> = getWifiStatus_wait rx (Suc k + n)
      (fold nl_recvmsgs (map rx [Suc k..<Suc k + n]) (nl_recvmsgs (rx k) st))"
    by (rule Suc.IH [OF rest pos])
  also have "fold nl_recvmsgs (map rx [Suc k..<Suc k + n]) (nl_recvmsgs (rx k) st)
      = fold nl_recvmsgs (map rx [k..<k + Suc n]) st"
  proof -
    have "[k..<k + Suc n] = k # [Suc k..<Suc k + n]"
      by (subst upt_rec) simp
    then show ?thesis by simp
  qed
  finally show ?case by simp
qed

lemma getWifiStatus_wait_finish:
  assumes "NL_CB_FINISH \<in> set (rx k)" and "wlanStatsResult (fst st) > 0"
  shows "getWifiStatus_wait rx k st = Some (nl_recvmsgs (rx k) st)"
proof -
  have "getWifiStatus_wait rx k st = getWifiStatus_wait rx (k + 1) (nl_recvmsgs (rx k) st)"
    using assms(2) by (subst getWifiStatus_wait.simps) simp
  also have "\<dots> = Some (nl_recvmsgs (rx k) st)"
    using nl_recvmsgs_finish [OF assms(1), of st] by (subst getWifiStatus_wait.simps) simp
  finally show ?thesis .
qed

lemma fold_nl_recvmsgs_concat:
  "fold nl_recvmsgs bs st = fold nl_cb_call (concat bs) st"
  by (induction bs arbitrary: st) (simp_all add: nl_recvmsgs_def)


text \<open>
  What a query does. A query whose message cannot be allocated returns \<open>-2\<close> and changes
  nothing. Otherwise, when call \<open>m\<close> of \<^verbatim>\<open>nl_recvmsgs\<close> is the first in which the
  "finished" callback runs, the loop of \<^verbatim>\<open>getWifiStatus\<close> ends after exactly that call and
  the query returns 0, with the completion flag at 0. The signal field then holds the value
  recorded by the last "valid data" callback that recorded one: the signal byte read as
  signed, or 0 when the station information of that message had no signal attribute. When
  no callback recorded a value, the query stores nothing in the signal field.
\<close>

theorem wifi_query_returns:
  assumes "NL_CB_FINISH \<in> set (rx m)" and "\<forall>k < m. NL_CB_FINISH \<notin> set (rx k)"
  shows "getWifiStatus False rx nl w = Some (- 2, nl, w)
    \<and> (\<exists>nl' w'.
           getWifiStatus True rx nl w = Some (0, nl', w')
           \<and> (nl', w') = fold nl_recvmsgs (map rx [0..<Suc m]) (nl\<lparr>wlanStatsResult := 1\<rparr>, w)
           \<and> wlanStatsResult nl' = 0 \<and> nl_id nl' = nl_id nl \<and> ifindex w' = ifindex w
           \<and> signal w' = (case last_recorded (concat (map rx [0..<Suc m])) of
                            None \<Rightarrow> signal w
                          | Some v \<Rightarrow> v))"
proof -
  let ?st0 = "(nl\<lparr>wlanStatsResult := 1\<rparr>, w)"
  let ?stm = "fold nl_recvmsgs (map rx [0..<m]) ?st0"
  let ?end = "fold nl_recvmsgs (map rx [0..<Suc m]) ?st0"
  have "fst ?stm = fst ?st0"
    using assms(2)
    by (simp add: fold_nl_recvmsgs_concat fold_nl_cb_call_fst)
  then have pos: "wlanStatsResult (fst ?stm) > 0" by simp
  have "getWifiStatus_wait rx 0 ?st0
      = getWifiStatus_wait rx (0 + m) (fold nl_recvmsgs (map rx [0..<0 + m]) ?st0)"
    by (rule getWifiStatus_wait_skip) (use assms(2) in simp_all)
  also have "\<dots> = getWifiStatus_wait rx m ?stm"
    by (simp only: add_0)
  also have "\<dots> = Some (nl_recvmsgs (rx m) ?stm)"
    using assms(1) pos by (rule getWifiStatus_wait_finish [of rx m ?stm])
  also have "nl_recvmsgs (rx m) ?stm = ?end"
    by simp
  finally have run: "getWifiStatus_wait rx 0 ?st0 = Some ?end" .
  obtain nl' w' where e: "?end = (nl', w')" by (cases ?end)
  have res: "getWifiStatus True rx nl w = Some (0, nl', w')"
    unfolding getWifiStatus_def run e by simp
  have fin: "NL_CB_FINISH \<in> set (concat (map rx [0..<Suc m]))"
    using assms(1) by auto
  have fst_end: "fst ?end = finish_handler (fst ?st0)"
    using fin unfolding fold_nl_recvmsgs_concat fold_nl_cb_call_fst by simp
  then have r0: "wlanStatsResult nl' = 0" and id: "nl_id nl' = nl_id nl"
    using e by (simp_all add: finish_handler_def)
  have "ifindex (snd ?end) = ifindex (snd ?st0)"
    unfolding fold_nl_recvmsgs_concat by (rule fold_nl_cb_call_ifindex)
  then have idx: "ifindex w' = ifindex w" using e by simp
  have "signal (snd ?end)
     = (case fold (\<lambda>cb acc. case recorded cb of None \<Rightarrow> acc | Some v \<Rightarrow> Some v)
               (concat (map rx [0..<Suc m])) None of
          None \<Rightarrow> signal (snd ?st0)
        | Some v \<Rightarrow> v)"
    unfolding fold_nl_recvmsgs_concat by (rule fold_nl_cb_call_signal) simp
  then have sig: "signal w' = (case last_recorded (concat (map rx [0..<Suc m])) of
                            None \<Rightarrow> signal w
                          | Some v \<Rightarrow> v)"
    using e by (simp add: last_recorded_def split: option.split)
  have alloc: "getWifiStatus False rx nl w = Some (- 2, nl, w)"
    by (simp add: getWifiStatus_def)
  have "\<exists>nl' w'.
           getWifiStatus True rx nl w = Some (0, nl', w')
           \<and> (nl', w') = fold nl_recvmsgs (map rx [0..<Suc m]) (nl\<lparr>wlanStatsResult := 1\<rparr>, w)
           \<and> wlanStatsResult nl' = 0 \<and> nl_id nl' = nl_id nl \<and> ifindex w' = ifindex w
           \<and> signal w' = (case last_recorded (concat (map rx [0..<Suc m])) of
                            None \<Rightarrow> signal w
                          | Some v \<Rightarrow> v)"
    using res e r0 id idx sig by (intro exI [of _ nl'] exI [of _ w']) simp
  with alloc show ?thesis by blast
qed


theorem wifi_query_returns_witness:
  "NL_CB_FINISH \<in> set (rx_station 1)
   \<and> getWifiStatus True rx_station nl_resolved example_wStats
       = Some (0, nl_resolved, \<lparr>ifindex = 0, signal = - 50\<rparr>)"
proof -
  have 1: "NL_CB_FINISH \<in> set (rx_station 1)" by (simp add: rx_station_def)
  have 2: "\<forall>k < 1. NL_CB_FINISH \<notin> set (rx_station k)" by (simp add: rx_station_def)
  have 3: "fold nl_recvmsgs (map rx_station [0..<Suc 1]) (nl_resolved\<lparr>wlanStatsResult := 1\<rparr>, example_wStats)
     = (nl_resolved, \<lparr>ifindex = 0, signal = - 50\<rparr>)"
    by code_simp
  from wifi_query_returns [OF 1 2, of nl_resolved example_wStats] 1 3
  show ?thesis by auto
qed

text \<open>
  C5. The query returns once the "finished" callback has run, but the signal field does not
  always hold what the answers said. \<^verbatim>\<open>getWifiStats_nl_cb\<close> records the neutral value 0 in
  its last branch, for station information without a signal attribute, and the query of such
  an answer returns with 0. Its two early returns record nothing, and neither does a dump
  with no message at all; \<^verbatim>\<open>getWifiStatus\<close> does not reset the field before it sends the
  query, and \<^verbatim>\<open>main\<close> never initialises \<^verbatim>\<open>wStats\<close>. So a query whose answers carry no signal
  attribute (only the end of the dump, or a message without station information) returns
  with the signal of an earlier query, here \<open>-50\<close>, and \<^verbatim>\<open>getNetwork\<close> prints that value as
  the current one.
\<close>

theorem stale_signal_after_query:
  "getWifiStatus True rx_finish_only nl_resolved earlier_wStats
     = Some (0, nl_resolved, earlier_wStats)
   \<and> getWifiStatus True rx_no_sta_info nl_resolved earlier_wStats
     = Some (0, nl_resolved, earlier_wStats)
   \<and> signal earlier_wStats = - 50
   \<and> last_recorded (rx_finish_only 0) = None
   \<and> last_recorded (rx_no_sta_info 0) = None
   \<and> getWifiStatus True rx_signal_absent nl_resolved earlier_wStats
     = Some (0, nl_resolved, earlier_wStats\<lparr>signal := 0\<rparr>)
   \<and> getNetwork unassociated_net [] nl_resolved earlier_wStats
     = Some (''w3:-50dBm '', nl_resolved, earlier_wStats)"
  by code_simp

section \<open>The passes of the loop\<close>

lemma clear_slots_upto:
  "k \<le> length xs \<Longrightarrow>
     fold (\<lambda>i ys. ys[i := []]) [0..<k] xs = replicate k [] @ drop k xs"
proof (induction k)
  case 0
  then show ?case by simp
next
  case (Suc k)
  then have k: "k < length xs" by simp
  have "fold (\<lambda>i ys. ys[i := []]) [0..<Suc k] xs
      = (replicate k [] @ drop k xs)[k := []]"
    using Suc by simp
  also have "\<dots> = replicate k [] @ (drop k xs)[0 := []]"
    by (simp add: list_update_append)
  also have "drop k xs = xs ! k # drop (Suc k) xs"
    using k by (simp add: Cons_nth_drop_Suc)
  finally show ?case
    by (simp add: replicate_append_same)
qed

lemma clear_slots_all:
  "length slots = MX_NUMBER_ELEMENTS \<Longrightarrow> clear_slots slots = replicate MX_NUMBER_ELEMENTS []"
  using clear_slots_upto [of MX_NUMBER_ELEMENTS slots] by (simp add: clear_slots_def)

lemma refresh_cases:
  "refresh cfg s p =
     (case getStatusInfo (status_now p) sysfsBatteryCapacity sysfsBatteryPowerNow
             (Some (sysfsThermalPath cfg)) (nlData s) (wStats s) of
        None \<Rightarrow> Hung
      | Some (line, nl', w') \<Rightarrow>
          if sbOut (outputFunction cfg) (dwlbSend_ret p) = - 1
          then Exit (s\<lparr>udevDisplayInfo := clear_slots (udevDisplayInfo s), sBuf := line,
                       nlData := nl', wStats := w'\<rparr>) [line]
          else Next (s\<lparr>udevDisplayInfo := clear_slots (udevDisplayInfo s), sBuf := line,
                       nlData := nl', wStats := w', timeout := STATUS_TIMEOUT\<rparr>) [line])"
  by (simp add: refresh_def Let_def split: option.split)

lemma refresh_clears:
  assumes "length (udevDisplayInfo s) = MX_NUMBER_ELEMENTS"
    and "state_after (refresh cfg s p) = Some s'"
  shows "udevDisplayInfo s' = replicate MX_NUMBER_ELEMENTS []"
  using assms(2) clear_slots_all [OF assms(1)]
  by (auto simp: refresh_cases state_after_def split: option.splits if_splits)

lemma refresh_timeout:
  "refresh cfg s p = Next s' out \<Longrightarrow> timeout s' = STATUS_TIMEOUT"
  by (auto simp: refresh_cases split: option.splits if_splits)

lemma refresh_emits:
  assumes "getStatusInfo (status_now p) sysfsBatteryCapacity sysfsBatteryPowerNow
             (Some (sysfsThermalPath cfg)) (nlData s) (wStats s) = Some (line, nl', w')"
  shows "emitted (refresh cfg s p) = [line]
    \<and> (sbOut (outputFunction cfg) (dwlbSend_ret p) \<noteq> - 1 \<longrightarrow>
          refresh cfg s p
            = Next (s\<lparr>udevDisplayInfo := clear_slots (udevDisplayInfo s), sBuf := line,
                      nlData := nl', wStats := w', timeout := STATUS_TIMEOUT\<rparr>) [line])
    \<and> (sbOut (outputFunction cfg) (dwlbSend_ret p) = - 1 \<longrightarrow>
          \<not> goes_on (refresh cfg s p))"
  using assms by (simp add: refresh_cases emitted_def goes_on_def)

lemma refresh_exit:
  "refresh cfg s p = Exit s' out \<Longrightarrow> sbOut (outputFunction cfg) (dwlbSend_ret p) = - 1"
  by (auto simp: refresh_cases split: option.splits if_splits)

lemma refresh_not_crashed: "refresh cfg s p \<noteq> Crashed"
  by (auto simp: refresh_cases split: option.splits if_splits)

lemma main_loop_body_event:
  assumes "poll_ret p > 0" and "\<not> poll_flags_error p" and "revents1 p AND POLLIN = 0"
    and "drain_udev (s\<lparr>sBuf := [], volumeLevel := []\<rparr>) p = Some s2"
  shows "main_loop_body cfg s p =
     (if sBuf (drain_mixer s2 p) \<noteq> [] then
        (if sbOut (outputFunction cfg) (dwlbSend_ret p) = - 1
         then Exit (drain_mixer s2 p) [sBuf (drain_mixer s2 p)]
         else Next ((drain_mixer s2 p)\<lparr>timeout := NOTIFY_TIMEOUT\<rparr>) [sBuf (drain_mixer s2 p)])
      else refresh cfg (drain_mixer s2 p) p)"
  using assms by (simp add: main_loop_body_def poll_flags_error_def Let_def)

lemma main_loop_body_timeout:
  "main_loop_body cfg s p = Next s' out \<Longrightarrow>
     timeout s' = STATUS_TIMEOUT \<or> timeout s' = NOTIFY_TIMEOUT"
  by (auto simp: main_loop_body_def Let_def dest: refresh_timeout
           split: if_splits option.splits)

lemma poll_calls_timeout:
  "timeout s = STATUS_TIMEOUT \<or> timeout s = NOTIFY_TIMEOUT \<Longrightarrow>
     \<forall>x \<in> set (poll_calls cfg s ps). timeout x = STATUS_TIMEOUT \<or> timeout x = NOTIFY_TIMEOUT"
proof (induction ps arbitrary: s)
  case Nil
  then show ?case by simp
next
  case (Cons p ps)
  show ?case
  proof (cases "main_loop_body cfg s p")
    case (Next s' out)
    from Cons.IH [OF main_loop_body_timeout [OF Next]] Cons.prems Next
    show ?thesis by simp
  qed (use Cons.prems in simp_all)
qed

lemma main_loop_body_exit:
  assumes "main_loop_body cfg s p = Exit s' out"
  shows "poll_ret p < 0 \<or> poll_flags_error p \<or> revents1 p AND POLLIN \<noteq> 0
     \<or> sbOut (outputFunction cfg) (dwlbSend_ret p) = - 1"
  using assms
  by (auto simp: main_loop_body_def poll_flags_error_def Let_def dest: refresh_exit
           split: if_splits option.splits)

lemma drain_udev_slots:
  assumes "drain_udev s p = Some s'"
  shows "length (udevDisplayInfo s') = length (udevDisplayInfo s)"
proof (cases "revents0 p AND POLLIN \<noteq> 0 \<and> received_device p \<noteq> None")
  case False
  then have "udevDisplayInfo s' = udevDisplayInfo s"
    using assms by (auto simp: drain_udev_def split: if_splits option.splits)
  then show ?thesis by simp
next
  case True
  then obtain dev where dev: "received_device p = Some dev" by blast
  then obtain r where r: "udevStatus (sBuf s) (udevDisplayInfo s) dev = Some r"
    and s': "s' = s\<lparr>sBuf := ur_sBuf r, udevDisplayInfo := ur_slots r\<rparr>"
    using assms True by (auto simp: drain_udev_def split: option.splits)
  from udevStatus_writes [OF r] s' show ?thesis by simp
qed

lemma drain_udev_device:
  assumes "revents0 p AND POLLIN \<noteq> 0" and "received_device p = Some dev"
    and "drain_udev s p = Some s'"
  shows "\<exists>r. udevStatus (sBuf s) (udevDisplayInfo s) dev = Some r
    \<and> udevDisplayInfo s' = ur_slots r \<and> sBuf s' = ur_sBuf r"
  using assms by (auto simp: drain_udev_def split: option.splits)

lemma udevStatus_battery:
  assumes "dev_subsystem dev = Some ''power_supply''" and "dev_action dev = ''change''"
    and "dev_sysname dev = BATTERY_NAME"
  shows "udevStatus buf slots dev =
     Some \<lparr>ur_ret = 0,
           ur_sBuf = udevStatus_concat (slots[2 := []]) 0 (int MX_STATUS_CHARS) buf,
           ur_slots = slots[2 := []], ur_written = [2]\<rparr>"
proof -
  have h: "powerStatus dev = Some (0, Some [])"
    using assms(3) by (simp add: powerStatus_def)
  have n: "0 < MX_NUMBER_ELEMENTS" "1 < MX_NUMBER_ELEMENTS" "2 < MX_NUMBER_ELEMENTS"
    by (simp_all add: MX_NUMBER_ELEMENTS_def MX_STATUS_CHARS_def MX_ELEMENT_CHARS_def)
  have "udevStatus_dispatch dev ''power_supply'' udevActions 0
          \<lparr>d_ret = - 1, d_slots = slots, d_written = []\<rparr>
        = Some \<lparr>d_ret = 0, d_slots = slots[2 := []], d_written = [2]\<rparr>"
    using h n by (simp add: udevActions_def numeral_2_eq_2)
  then show ?thesis
    using assms(1,2) by (simp add: udevStatus_def)
qed

text \<open>
  C2, as the code has it. In a pass in which no descriptor reports \<^verbatim>\<open>POLLERR\<close> or
  \<^verbatim>\<open>POLLNVAL\<close> and the termination source is not ready: when \<^verbatim>\<open>poll\<close> reports readiness
  and the line composed from the events is not empty, that line and no other is handed to
  \<^verbatim>\<open>sbOut\<close>, and the loop goes on, with \<^verbatim>\<open>NOTIFY_TIMEOUT\<close> for the next \<^verbatim>\<open>poll\<close>, unless
  \<^verbatim>\<open>sbOut\<close> reports an error. When \<^verbatim>\<open>poll\<close> times out, the line that \<^verbatim>\<open>getStatusInfo\<close>
  computes, if the wireless query ends, is handed to \<^verbatim>\<open>sbOut\<close>, and the loop goes on, with
  \<^verbatim>\<open>STATUS_TIMEOUT\<close> for the next \<^verbatim>\<open>poll\<close>, unless \<^verbatim>\<open>sbOut\<close> reports an error.
\<close>

theorem event_and_timeout_passes:
  assumes "revents1 p AND POLLIN = 0" and "\<not> poll_flags_error p"
  shows "(poll_ret p > 0 \<and> drain_udev (s\<lparr>sBuf := [], volumeLevel := []\<rparr>) p = Some s2
            \<and> sBuf (drain_mixer s2 p) \<noteq> []
          \<longrightarrow> emitted (main_loop_body cfg s p) = [sBuf (drain_mixer s2 p)]
            \<and> (\<forall>s' out. main_loop_body cfg s p = Next s' out \<longrightarrow> timeout s' = NOTIFY_TIMEOUT)
            \<and> (sbOut (outputFunction cfg) (dwlbSend_ret p) \<noteq> - 1
                 \<longrightarrow> goes_on (main_loop_body cfg s p)))
    \<and> (poll_ret p = 0 \<and> getStatusInfo (status_now p) sysfsBatteryCapacity sysfsBatteryPowerNow
             (Some (sysfsThermalPath cfg)) (nlData s) (wStats s) = Some (line, nl', w')
          \<longrightarrow> emitted (main_loop_body cfg s p) = [line]
            \<and> (\<forall>s' out. main_loop_body cfg s p = Next s' out \<longrightarrow> timeout s' = STATUS_TIMEOUT)
            \<and> (sbOut (outputFunction cfg) (dwlbSend_ret p) \<noteq> - 1
                 \<longrightarrow> goes_on (main_loop_body cfg s p)))"
proof -
  have ev: "emitted (main_loop_body cfg s p) = [sBuf (drain_mixer s2 p)]
            \<and> (\<forall>s' out. main_loop_body cfg s p = Next s' out \<longrightarrow> timeout s' = NOTIFY_TIMEOUT)
            \<and> (sbOut (outputFunction cfg) (dwlbSend_ret p) \<noteq> - 1
                 \<longrightarrow> goes_on (main_loop_body cfg s p))"
    if "poll_ret p > 0" "drain_udev (s\<lparr>sBuf := [], volumeLevel := []\<rparr>) p = Some s2"
      "sBuf (drain_mixer s2 p) \<noteq> []"
    using main_loop_body_event [OF that(1) assms(2) assms(1) that(2), of cfg] that(3)
    by (auto simp: emitted_def goes_on_def)
  have tm: "emitted (main_loop_body cfg s p) = [line]
            \<and> (\<forall>s' out. main_loop_body cfg s p = Next s' out \<longrightarrow> timeout s' = STATUS_TIMEOUT)
            \<and> (sbOut (outputFunction cfg) (dwlbSend_ret p) \<noteq> - 1
                 \<longrightarrow> goes_on (main_loop_body cfg s p))"
    if "poll_ret p = 0" "getStatusInfo (status_now p) sysfsBatteryCapacity sysfsBatteryPowerNow
             (Some (sysfsThermalPath cfg)) (nlData s) (wStats s) = Some (line, nl', w')"
  proof -
    have b: "main_loop_body cfg s p = refresh cfg s p"
      using that(1) by (simp add: main_loop_body_def)
    show ?thesis
      using refresh_emits [OF that(2)] refresh_timeout [of cfg s p]
      by (auto simp: b goes_on_def)
  qed
  show ?thesis using ev tm by blast
qed

theorem event_and_timeout_passes_witness:
  "drain_udev (example_reactor\<lparr>sBuf := [], volumeLevel := []\<rparr>)
       (pass_device (Some backlight_change) 0) = Some backlight_shown
   \<and> emitted (main_loop_body example_config example_reactor
                (pass_device (Some backlight_change) 0)) = [''LCD: 50% '']
   \<and> goes_on (main_loop_body example_config example_reactor
                (pass_device (Some backlight_change) 0))"
proof -
  let ?p = "pass_device (Some backlight_change) 0"
  have 1: "revents1 ?p AND POLLIN = 0" by code_simp
  have 2: "\<not> poll_flags_error ?p" by code_simp
  have 3: "poll_ret ?p > 0" by code_simp
  have 4: "drain_udev (example_reactor\<lparr>sBuf := [], volumeLevel := []\<rparr>) ?p = Some backlight_shown"
    by code_simp
  have 5: "sBuf (drain_mixer backlight_shown ?p) = ''LCD: 50% ''" by code_simp
  have 6: "sbOut (outputFunction example_config) (dwlbSend_ret ?p) \<noteq> - 1" by code_simp
  from event_and_timeout_passes [OF 1 2, of example_reactor backlight_shown example_config]
    3 4 5 6
  show ?thesis by simp
qed

text \<open>
  C2 as stated fails when the termination source is ready in the same pass as a device
  event: the line composed from the event is \<^verbatim>\<open>LCD: 50% \<close>, but the loop is left before
  \<^verbatim>\<open>sbOut\<close> is called; nothing is handed to the sink and there is no next \<^verbatim>\<open>poll\<close>.
\<close>

theorem event_line_lost_on_signal:
  "poll_ret (pass_device (Some backlight_change) POLLIN) = 1
   \<and> map_option sBuf
        (drain_udev (example_reactor\<lparr>sBuf := [], volumeLevel := []\<rparr>)
           (pass_device (Some backlight_change) POLLIN)) = Some ''LCD: 50% ''
   \<and> emitted (main_loop_body example_config example_reactor
                (pass_device (Some backlight_change) POLLIN)) = []
   \<and> \<not> goes_on (main_loop_body example_config example_reactor
                  (pass_device (Some backlight_change) POLLIN))"
  by code_simp

text \<open>
  C3, as the code has it. When the loop is entered at all, its first \<^verbatim>\<open>poll\<close> call uses
  the timeout 1000 ms with which \<^verbatim>\<open>main\<close> initialises the variable; every later \<^verbatim>\<open>poll\<close>
  call uses either \<^verbatim>\<open>STATUS_TIMEOUT\<close> (10000 ms) or \<^verbatim>\<open>NOTIFY_TIMEOUT\<close> (2000 ms), and no other
  value.
\<close>

theorem poll_timeouts:
  "(\<not> exit_request
      \<longrightarrow> timeout (hd (main_loop exit_request cfg (main_init buf0 slots0 nl w0) ps)) = 1000)
   \<and> (\<forall>x \<in> set (tl (main_loop exit_request cfg (main_init buf0 slots0 nl w0) ps)).
         timeout x = STATUS_TIMEOUT \<or> timeout x = NOTIFY_TIMEOUT)
   \<and> STATUS_TIMEOUT = 10000 \<and> NOTIFY_TIMEOUT = 2000"
proof (cases exit_request)
  case True
  then show ?thesis
    by (simp add: main_loop_def STATUS_TIMEOUT_def [symmetric] NOTIFY_TIMEOUT_def [symmetric])
next
  case False
  note c = STATUS_TIMEOUT_def [symmetric] NOTIFY_TIMEOUT_def [symmetric]
  show ?thesis
  proof (cases ps)
    case Nil
    then show ?thesis using False by (simp add: main_loop_def main_init_def c)
  next
    case (Cons p ps')
    show ?thesis
    proof (cases "main_loop_body cfg (main_init buf0 slots0 nl w0) p")
      case (Next s' out)
      from poll_calls_timeout [OF main_loop_body_timeout [OF Next], of cfg ps'] Cons Next False
      show ?thesis by (simp add: main_loop_def main_init_def c)
    qed (use Cons False in \<open>simp_all add: main_loop_def main_init_def c\<close>)
  qed
qed

theorem poll_timeouts_witness:
  "main_loop False example_config example_reactor
       [pass_timeout, pass_device (Some backlight_change) 0] ! 2
     \<in> set (tl (main_loop False example_config example_reactor
                  [pass_timeout, pass_device (Some backlight_change) 0]))
   \<and> timeout (hd (main_loop False example_config example_reactor
                [pass_timeout, pass_device (Some backlight_change) 0])) = 1000
   \<and> timeout (main_loop False example_config example_reactor
                [pass_timeout, pass_device (Some backlight_change) 0] ! 2) \<noteq> STATUS_TIMEOUT
   \<and> timeout (main_loop False example_config example_reactor
                [pass_timeout, pass_device (Some backlight_change) 0] ! 2) = NOTIFY_TIMEOUT"
proof -
  let ?run = "main_loop False example_config example_reactor
                [pass_timeout, pass_device (Some backlight_change) 0]"
  have 1: "?run ! 2 \<in> set (tl ?run)" by code_simp
  have 2: "timeout (?run ! 2) \<noteq> STATUS_TIMEOUT" by code_simp
  from poll_timeouts [of False example_config "[]" "replicate 6 []" nl_unresolved
      example_wStats "[pass_timeout, pass_device (Some backlight_change) 0]"] 1 2
  show ?thesis unfolding example_reactor_def by blast
qed

text \<open>
  C3 as stated fails at the first \<^verbatim>\<open>poll\<close> call: its timeout is 1000 ms, which is neither
  \<^verbatim>\<open>STATUS_TIMEOUT\<close> nor \<^verbatim>\<open>NOTIFY_TIMEOUT\<close>.
\<close>

theorem first_poll_timeout:
  "timeout (hd (main_loop False example_config example_reactor [pass_timeout])) = 1000
   \<and> timeout (hd (main_loop False example_config example_reactor [pass_timeout]))
       \<noteq> STATUS_TIMEOUT
   \<and> timeout (hd (main_loop False example_config example_reactor [pass_timeout]))
       \<noteq> NOTIFY_TIMEOUT"
  by code_simp

text \<open>
  C4, as the code has it. The slots are cleared by the periodic refresh (after a timeout
  of \<^verbatim>\<open>poll\<close>, or after events that leave the line empty), not when a device event is
  dispatched: \<^verbatim>\<open>udevStatus\<close> is run on the slots as the earlier passes left them, stores
  into each slot at most once before it composes the line from them, and leaves the other
  slots as they were; a pass that shows an event line leaves the slots as \<^verbatim>\<open>udevStatus\<close>
  left them.
\<close>

theorem slots_cleared_by_refresh:
  "(udevStatus buf slots dev = Some r
      \<longrightarrow> distinct (ur_written r)
        \<and> (\<forall>k. k \<notin> set (ur_written r) \<longrightarrow> ur_slots r ! k = slots ! k)
        \<and> (dev_subsystem dev \<noteq> None
             \<longrightarrow> ur_sBuf r = udevStatus_concat (ur_slots r) 0 (int MX_STATUS_CHARS) buf))
   \<and> (revents0 p AND POLLIN \<noteq> 0 \<and> received_device p = Some dev \<and> drain_udev s p = Some s2
      \<longrightarrow> (\<exists>r. udevStatus (sBuf s) (udevDisplayInfo s) dev = Some r
             \<and> udevDisplayInfo s2 = ur_slots r \<and> sBuf s2 = ur_sBuf r))
   \<and> (main_loop_body cfg s p = Next s' out \<and> timeout s' = NOTIFY_TIMEOUT
      \<longrightarrow> (\<exists>s3. drain_udev (s\<lparr>sBuf := [], volumeLevel := []\<rparr>) p = Some s3
             \<and> udevDisplayInfo s' = udevDisplayInfo s3))
   \<and> (length (udevDisplayInfo s) = MX_NUMBER_ELEMENTS
        \<and> state_after (refresh cfg s p) = Some s'
      \<longrightarrow> udevDisplayInfo s' = replicate MX_NUMBER_ELEMENTS [])"
proof -
  have a: "udevStatus buf slots dev = Some r
      \<longrightarrow> distinct (ur_written r)
        \<and> (\<forall>k. k \<notin> set (ur_written r) \<longrightarrow> ur_slots r ! k = slots ! k)
        \<and> (dev_subsystem dev \<noteq> None
             \<longrightarrow> ur_sBuf r = udevStatus_concat (ur_slots r) 0 (int MX_STATUS_CHARS) buf)"
    using udevStatus_writes [of buf slots dev r] by blast
  have b: "revents0 p AND POLLIN \<noteq> 0 \<and> received_device p = Some dev \<and> drain_udev s p = Some s2
      \<longrightarrow> (\<exists>r. udevStatus (sBuf s) (udevDisplayInfo s) dev = Some r
             \<and> udevDisplayInfo s2 = ur_slots r \<and> sBuf s2 = ur_sBuf r)"
    using drain_udev_device [of p dev s s2] by blast
  have c: "main_loop_body cfg s p = Next s' out \<and> timeout s' = NOTIFY_TIMEOUT
      \<longrightarrow> (\<exists>s3. drain_udev (s\<lparr>sBuf := [], volumeLevel := []\<rparr>) p = Some s3
             \<and> udevDisplayInfo s' = udevDisplayInfo s3)"
  proof
    assume h: "main_loop_body cfg s p = Next s' out \<and> timeout s' = NOTIFY_TIMEOUT"
    have ne: "STATUS_TIMEOUT \<noteq> NOTIFY_TIMEOUT"
      by (simp add: STATUS_TIMEOUT_def NOTIFY_TIMEOUT_def)
    have nr: "\<And>x. refresh cfg x p \<noteq> Next s' out"
      using refresh_timeout [of cfg _ p s' out] h ne by auto
    from h nr show "\<exists>s3. drain_udev (s\<lparr>sBuf := [], volumeLevel := []\<rparr>) p = Some s3
             \<and> udevDisplayInfo s' = udevDisplayInfo s3"
      using drain_mixer_keeps
      by (auto simp: main_loop_body_def Let_def split: if_splits option.splits)
  qed
  have d: "length (udevDisplayInfo s) = MX_NUMBER_ELEMENTS
        \<and> state_after (refresh cfg s p) = Some s'
      \<longrightarrow> udevDisplayInfo s' = replicate MX_NUMBER_ELEMENTS []"
    using refresh_clears [of s cfg p s'] by blast
  show ?thesis using a b c d by blast
qed

theorem slots_cleared_by_refresh_witness:
  "udevStatus [] [''LCD: 50% '', [], [], [], [], []] rfkill_change = Some rfkill_result
   \<and> ur_written rfkill_result = [1]
   \<and> ur_slots rfkill_result ! 0 = ''LCD: 50% ''
   \<and> ur_sBuf rfkill_result = ''LCD: 50% wlan [rfkill index:0]: On ''"
proof -
  have 1: "udevStatus [] [''LCD: 50% '', [], [], [], [], []] rfkill_change = Some rfkill_result"
    by code_simp
  have 2: "ur_written rfkill_result = [1]" "ur_sBuf rfkill_result = ''LCD: 50% wlan [rfkill index:0]: On ''"
    by code_simp+
  from slots_cleared_by_refresh [of "[]" "[''LCD: 50% '', [], [], [], [], []]" rfkill_change
      rfkill_result] 1 2
  show ?thesis by simp
qed

text \<open>
  C4 as stated fails for an event that follows another within the notification time: after
  a refresh and a backlight event, the slots are not cleared when the rfkill event is
  dispatched; slot 0 still holds \<^verbatim>\<open>LCD: 50% \<close>, and the line composed for the rfkill event
  starts with it.
\<close>

theorem slots_kept_between_events:
  "udevDisplayInfo
     (poll_calls example_config example_reactor
        [pass_timeout, pass_device (Some backlight_change) 0,
         pass_device (Some rfkill_change) 0] ! 2)
     = [''LCD: 50% '', [], [], [], [], []]
   \<and> emitted
       (main_loop_body example_config
          (poll_calls example_config example_reactor
             [pass_timeout, pass_device (Some backlight_change) 0,
              pass_device (Some rfkill_change) 0] ! 2)
          (pass_device (Some rfkill_change) 0))
     = [''LCD: 50% wlan [rfkill index:0]: On '']"
  by code_simp

text \<open>
  C7. A NULL from \<^verbatim>\<open>udev_monitor_receive_device\<close> leaves the state as it is, and a
  negative return of \<^verbatim>\<open>snd_mixer_handle_events\<close> leaves the line and the slots as they
  are: neither adds anything to the line. A pass with both failures, in which \<^verbatim>\<open>poll\<close> did
  not fail, no descriptor reports an error, the termination source is not ready and the
  sink accepts the line, goes on to the next \<^verbatim>\<open>poll\<close> (if the wireless query ends). Every
  pass that leaves the loop does so for one of: a negative return of \<^verbatim>\<open>poll\<close>, an error
  flag, the termination source, an error of \<^verbatim>\<open>sbOut\<close>. A negative return of \<^verbatim>\<open>poll\<close>
  leaves the loop, and so does every error that \<^verbatim>\<open>sbOut\<close> returns for a line.
\<close>

theorem drain_failures_not_fatal:
  "(received_device p = None
        \<longrightarrow> drain_udev s p
            = Some (if revents0 p AND POLLIN \<noteq> 0
                    then s\<lparr>errlog := errlog s @ [Receive_device_failed]\<rparr> else s))
   \<and> (mixer_handle_events_ret p < 0
        \<longrightarrow> sBuf (drain_mixer s p) = sBuf s
          \<and> udevDisplayInfo (drain_mixer s p) = udevDisplayInfo s
          \<and> (revents2 p AND POLLIN \<noteq> 0
               \<longrightarrow> errlog (drain_mixer s p)
                   = errlog s @ [Mixer_handle_events_failed (mixer_handle_events_ret p)]))
   \<and> (0 \<le> poll_ret p \<and> \<not> poll_flags_error p \<and> revents1 p AND POLLIN = 0
        \<and> sbOut (outputFunction cfg) (dwlbSend_ret p) \<noteq> - 1
        \<and> received_device p = None \<and> mixer_handle_events_ret p < 0
        \<and> getStatusInfo (status_now p) sysfsBatteryCapacity sysfsBatteryPowerNow
             (Some (sysfsThermalPath cfg)) (nlData s) (wStats s) \<noteq> None
        \<longrightarrow> goes_on (main_loop_body cfg s p))
   \<and> (\<forall>s' out. main_loop_body cfg s p = Exit s' out
        \<longrightarrow> poll_ret p < 0 \<or> poll_flags_error p \<or> revents1 p AND POLLIN \<noteq> 0
          \<or> sbOut (outputFunction cfg) (dwlbSend_ret p) = - 1)
   \<and> (poll_ret p < 0 \<longrightarrow> main_loop_body cfg s p = Exit s [])
   \<and> (emitted (main_loop_body cfg s p) \<noteq> []
        \<and> sbOut (outputFunction cfg) (dwlbSend_ret p) = - 1
        \<longrightarrow> \<not> goes_on (main_loop_body cfg s p))"
proof -
  have a: "received_device p = None
        \<longrightarrow> drain_udev s p
            = Some (if revents0 p AND POLLIN \<noteq> 0
                    then s\<lparr>errlog := errlog s @ [Receive_device_failed]\<rparr> else s)"
    by (simp add: drain_udev_def)
  have b: "mixer_handle_events_ret p < 0
        \<longrightarrow> sBuf (drain_mixer s p) = sBuf s
          \<and> udevDisplayInfo (drain_mixer s p) = udevDisplayInfo s
          \<and> (revents2 p AND POLLIN \<noteq> 0
               \<longrightarrow> errlog (drain_mixer s p)
                   = errlog s @ [Mixer_handle_events_failed (mixer_handle_events_ret p)])"
    by (auto simp: drain_mixer_def Let_def split: option.splits)
  have c: "goes_on (main_loop_body cfg s p)"
    if h: "0 \<le> poll_ret p" "\<not> poll_flags_error p" "revents1 p AND POLLIN = 0"
      "sbOut (outputFunction cfg) (dwlbSend_ret p) \<noteq> - 1"
      "received_device p = None" "mixer_handle_events_ret p < 0"
      "getStatusInfo (status_now p) sysfsBatteryCapacity sysfsBatteryPowerNow
             (Some (sysfsThermalPath cfg)) (nlData s) (wStats s) \<noteq> None"
  proof -
    obtain line nl' w' where g: "getStatusInfo (status_now p) sysfsBatteryCapacity sysfsBatteryPowerNow
             (Some (sysfsThermalPath cfg)) (nlData s) (wStats s) = Some (line, nl', w')"
      using h(7) by (cases "getStatusInfo (status_now p) sysfsBatteryCapacity sysfsBatteryPowerNow
             (Some (sysfsThermalPath cfg)) (nlData s) (wStats s)") auto
    show ?thesis
    proof (cases "poll_ret p = 0")
      case True
      then have "main_loop_body cfg s p = refresh cfg s p"
        by (simp add: main_loop_body_def)
      then show ?thesis using refresh_emits [OF g] h(4) by (simp add: goes_on_def)
    next
      case False
      then have pos: "poll_ret p > 0" using h(1) by simp
      let ?s1 = "s\<lparr>sBuf := [], volumeLevel := []\<rparr>"
      let ?s2 = "if revents0 p AND POLLIN \<noteq> 0
                 then ?s1\<lparr>errlog := errlog ?s1 @ [Receive_device_failed]\<rparr> else ?s1"
      have "drain_udev ?s1 p = Some ?s2 \<and> sBuf ?s2 = []"
        using h(5) by (simp add: drain_udev_def)
      then obtain s2 where du: "drain_udev ?s1 p = Some s2" and s2: "sBuf s2 = []"
        by blast
      have k2: "nlData s2 = nlData s" "wStats s2 = wStats s"
        using drain_udev_keeps [OF du] by simp_all
      have e: "sBuf (drain_mixer s2 p) = []"
        using h(6) s2 by (auto simp: drain_mixer_def Let_def split: option.splits)
      have k: "nlData (drain_mixer s2 p) = nlData s" "wStats (drain_mixer s2 p) = wStats s"
        using drain_mixer_keeps [of s2 p] k2 by simp_all
      have "main_loop_body cfg s p = refresh cfg (drain_mixer s2 p) p"
        using main_loop_body_event [OF pos h(2) h(3) du, of cfg] e by simp
      moreover have "getStatusInfo (status_now p) sysfsBatteryCapacity sysfsBatteryPowerNow
             (Some (sysfsThermalPath cfg)) (nlData (drain_mixer s2 p)) (wStats (drain_mixer s2 p))
           = Some (line, nl', w')"
        using g k by simp
      ultimately show ?thesis
        using refresh_emits [of p cfg "drain_mixer s2 p" line nl' w'] h(4)
        by (simp add: goes_on_def)
    qed
  qed
  have d: "\<forall>s' out. main_loop_body cfg s p = Exit s' out
        \<longrightarrow> poll_ret p < 0 \<or> poll_flags_error p \<or> revents1 p AND POLLIN \<noteq> 0
          \<or> sbOut (outputFunction cfg) (dwlbSend_ret p) = - 1"
    using main_loop_body_exit [of cfg s p] by blast
  have e: "poll_ret p < 0 \<longrightarrow> main_loop_body cfg s p = Exit s []"
    by (simp add: main_loop_body_def)
  have f: "emitted (main_loop_body cfg s p) \<noteq> []
        \<and> sbOut (outputFunction cfg) (dwlbSend_ret p) = - 1
        \<longrightarrow> \<not> goes_on (main_loop_body cfg s p)"
    by (auto simp: main_loop_body_def refresh_cases emitted_def goes_on_def Let_def
             split: if_splits option.splits)
  show ?thesis using a b c d e f by blast
qed

theorem drain_failures_not_fatal_witness:
  "received_device failed_drains = None \<and> mixer_handle_events_ret failed_drains < 0
   \<and> poll_ret failed_drains = 2
   \<and> goes_on (main_loop_body dwlb_config example_reactor failed_drains)
   \<and> map_option errlog (state_after (main_loop_body dwlb_config example_reactor failed_drains))
       = Some [Receive_device_failed, Mixer_handle_events_failed (- 32)]
   \<and> \<not> goes_on (main_loop_body dwlb_config example_reactor (failed_drains\<lparr>dwlbSend_ret := - 1\<rparr>))
   \<and> \<not> goes_on (main_loop_body dwlb_config example_reactor (failed_drains\<lparr>poll_ret := - 1\<rparr>))"
proof -
  let ?p = "failed_drains"
  have 1: "received_device ?p = None" "mixer_handle_events_ret ?p < 0" "poll_ret ?p = 2"
    "0 \<le> poll_ret ?p" "\<not> poll_flags_error ?p" "revents1 ?p AND POLLIN = 0"
    "sbOut (outputFunction dwlb_config) (dwlbSend_ret ?p) \<noteq> - 1"
    by code_simp+
  have 2: "getStatusInfo (status_now ?p) sysfsBatteryCapacity sysfsBatteryPowerNow
             (Some (sysfsThermalPath dwlb_config)) (nlData example_reactor)
             (wStats example_reactor) \<noteq> None"
    by code_simp
  have 3: "emitted (main_loop_body dwlb_config example_reactor (?p\<lparr>dwlbSend_ret := - 1\<rparr>)) \<noteq> []"
    "sbOut (outputFunction dwlb_config) (dwlbSend_ret (?p\<lparr>dwlbSend_ret := - 1\<rparr>)) = - 1"
    by code_simp+
  have 4: "poll_ret (?p\<lparr>poll_ret := - 1\<rparr>) < 0" by simp
  have a: "goes_on (main_loop_body dwlb_config example_reactor ?p)"
    using drain_failures_not_fatal [of ?p example_reactor dwlb_config] 1 2 by blast
  have b: "\<not> goes_on (main_loop_body dwlb_config example_reactor (?p\<lparr>dwlbSend_ret := - 1\<rparr>))"
    using drain_failures_not_fatal [of "?p\<lparr>dwlbSend_ret := - 1\<rparr>" example_reactor dwlb_config] 3
    by blast
  have c: "\<not> goes_on (main_loop_body dwlb_config example_reactor (?p\<lparr>poll_ret := - 1\<rparr>))"
    using drain_failures_not_fatal [of "?p\<lparr>poll_ret := - 1\<rparr>" example_reactor dwlb_config] 4
    by (simp add: goes_on_def)
  have d: "map_option errlog
             (state_after (main_loop_body dwlb_config example_reactor failed_drains))
       = Some [Receive_device_failed, Mixer_handle_events_failed (- 32)]"
    by code_simp
  show ?thesis using 1 a b c d by simp
qed

text \<open>
  C9, as the code has it. In a pass in which \<^verbatim>\<open>poll\<close> reports readiness, no descriptor
  reports an error, the termination source is not ready, and the line is empty after the
  sources are drained, the pass continues as the periodic refresh does: all slots are
  cleared, and the line that \<^verbatim>\<open>getStatusInfo\<close> computes, if the wireless query ends, is
  handed to \<^verbatim>\<open>sbOut\<close>; the loop goes on with \<^verbatim>\<open>STATUS_TIMEOUT\<close> unless \<^verbatim>\<open>sbOut\<close> reports
  an error. A \<^verbatim>\<open>change\<close> event of the configured battery stores the empty text in the
  power-supply slot.
\<close>

theorem empty_event_line_refreshes:
  assumes "poll_ret p > 0" and "\<not> poll_flags_error p" and "revents1 p AND POLLIN = 0"
    and "drain_udev (s\<lparr>sBuf := [], volumeLevel := []\<rparr>) p = Some s2"
    and "sBuf (drain_mixer s2 p) = []"
  shows "main_loop_body cfg s p = refresh cfg (drain_mixer s2 p) p
    \<and> (length (udevDisplayInfo s) = MX_NUMBER_ELEMENTS
         \<longrightarrow> (\<forall>s'. state_after (main_loop_body cfg s p) = Some s'
                \<longrightarrow> udevDisplayInfo s' = replicate MX_NUMBER_ELEMENTS []))
    \<and> (\<forall>line nl' w'. getStatusInfo (status_now p) sysfsBatteryCapacity sysfsBatteryPowerNow
             (Some (sysfsThermalPath cfg)) (nlData s) (wStats s) = Some (line, nl', w')
         \<longrightarrow> emitted (main_loop_body cfg s p) = [line]
           \<and> (sbOut (outputFunction cfg) (dwlbSend_ret p) \<noteq> - 1
                \<longrightarrow> (\<exists>s'. main_loop_body cfg s p = Next s' [line]
                       \<and> timeout s' = STATUS_TIMEOUT)))
    \<and> (\<forall>dev buf slots.
          dev_subsystem dev = Some ''power_supply'' \<and> dev_action dev = ''change''
            \<and> dev_sysname dev = BATTERY_NAME
          \<longrightarrow> map_option ur_slots (udevStatus buf slots dev) = Some (slots[2 := []]))"
proof -
  let ?s3 = "drain_mixer s2 p"
  have body: "main_loop_body cfg s p = refresh cfg ?s3 p"
    using main_loop_body_event [OF assms(1-4), of cfg] assms(5) by simp
  have keep: "nlData ?s3 = nlData s" "wStats ?s3 = wStats s"
    "length (udevDisplayInfo ?s3) = length (udevDisplayInfo s)"
    using drain_udev_keeps [OF assms(4)] drain_udev_slots [OF assms(4)]
      drain_mixer_keeps [of s2 p]
    by simp_all
  have clear: "length (udevDisplayInfo s) = MX_NUMBER_ELEMENTS
         \<longrightarrow> (\<forall>s'. state_after (main_loop_body cfg s p) = Some s'
                \<longrightarrow> udevDisplayInfo s' = replicate MX_NUMBER_ELEMENTS [])"
    using refresh_clears [of ?s3 cfg p] keep(3) body by simp
  have emit: "\<forall>line nl' w'. getStatusInfo (status_now p) sysfsBatteryCapacity sysfsBatteryPowerNow
             (Some (sysfsThermalPath cfg)) (nlData s) (wStats s) = Some (line, nl', w')
         \<longrightarrow> emitted (main_loop_body cfg s p) = [line]
           \<and> (sbOut (outputFunction cfg) (dwlbSend_ret p) \<noteq> - 1
                \<longrightarrow> (\<exists>s'. main_loop_body cfg s p = Next s' [line]
                       \<and> timeout s' = STATUS_TIMEOUT))"
  proof (intro allI impI)
    fix line nl' w'
    assume "getStatusInfo (status_now p) sysfsBatteryCapacity sysfsBatteryPowerNow
             (Some (sysfsThermalPath cfg)) (nlData s) (wStats s) = Some (line, nl', w')"
    then have g: "getStatusInfo (status_now p) sysfsBatteryCapacity sysfsBatteryPowerNow
             (Some (sysfsThermalPath cfg)) (nlData ?s3) (wStats ?s3) = Some (line, nl', w')"
      using keep by simp
    show "emitted (main_loop_body cfg s p) = [line]
           \<and> (sbOut (outputFunction cfg) (dwlbSend_ret p) \<noteq> - 1
                \<longrightarrow> (\<exists>s'. main_loop_body cfg s p = Next s' [line]
                       \<and> timeout s' = STATUS_TIMEOUT))"
      using refresh_emits [OF g] by (auto simp: body)
  qed
  have battery: "\<forall>dev buf slots.
          dev_subsystem dev = Some ''power_supply'' \<and> dev_action dev = ''change''
            \<and> dev_sysname dev = BATTERY_NAME
          \<longrightarrow> map_option ur_slots (udevStatus buf slots dev) = Some (slots[2 := []])"
    using udevStatus_battery by simp
  show ?thesis using body clear emit battery by blast
qed

theorem empty_event_line_refreshes_witness:
  "drain_udev (example_reactor\<lparr>sBuf := [], volumeLevel := []\<rparr>)
       (pass_device (Some battery_change) 0) = Some example_reactor
   \<and> sBuf (drain_mixer example_reactor (pass_device (Some battery_change) 0)) = []
   \<and> main_loop_body example_config example_reactor (pass_device (Some battery_change) 0)
       = refresh example_config
           (drain_mixer example_reactor (pass_device (Some battery_change) 0))
           (pass_device (Some battery_change) 0)
   \<and> emitted (main_loop_body example_config example_reactor
                (pass_device (Some battery_change) 0))
       = [''tmp:41C pwr:7W [!]bat:10% 30-10-2026 14:37'']"
proof -
  let ?p = "pass_device (Some battery_change) 0"
  have 1: "poll_ret ?p > 0" "\<not> poll_flags_error ?p" "revents1 ?p AND POLLIN = 0"
    by code_simp+
  have 2: "drain_udev (example_reactor\<lparr>sBuf := [], volumeLevel := []\<rparr>) ?p = Some example_reactor"
    by code_simp
  have 3: "sBuf (drain_mixer example_reactor ?p) = []"
    by code_simp
  have 5: "getStatusInfo (status_now ?p) sysfsBatteryCapacity sysfsBatteryPowerNow
             (Some (sysfsThermalPath example_config)) (nlData example_reactor)
             (wStats example_reactor)
     = Some (''tmp:41C pwr:7W [!]bat:10% 30-10-2026 14:37'', nl_unresolved, example_wStats)"
    by code_simp
  note t = empty_event_line_refreshes [OF 1 2 3, of example_config]
  have body: "main_loop_body example_config example_reactor ?p
       = refresh example_config (drain_mixer example_reactor ?p) ?p"
    using t by blast
  have em: "emitted (main_loop_body example_config example_reactor ?p)
       = [''tmp:41C pwr:7W [!]bat:10% 30-10-2026 14:37'']"
    using t 5 by blast
  show ?thesis using 2 3 body em by blast
qed

text \<open>
  C9 as stated fails when the termination source is ready in the same pass as the battery
  event: the line composed from the event is empty, but the loop is left without a
  refresh; nothing is handed to \<^verbatim>\<open>sbOut\<close> and the timeout is not set.
\<close>

theorem no_refresh_on_signal:
  "poll_ret (pass_device (Some battery_change) POLLIN) = 1
   \<and> map_option sBuf
        (drain_udev (example_reactor\<lparr>sBuf := [], volumeLevel := []\<rparr>)
           (pass_device (Some battery_change) POLLIN)) = Some []
   \<and> emitted (main_loop_body example_config example_reactor
                (pass_device (Some battery_change) POLLIN)) = []
   \<and> \<not> goes_on (main_loop_body example_config example_reactor
                  (pass_device (Some battery_change) POLLIN))
   \<and> map_option timeout
        (state_after (main_loop_body example_config example_reactor
                        (pass_device (Some battery_change) POLLIN))) = Some 1000"
  by code_simp

section \<open>Composition of the line\<close>



section \<open>The wait without a bound\<close>

text \<open>
  When no call of \<^verbatim>\<open>nl_recvmsgs\<close> ever runs the "finished" callback, the loop of
  \<^verbatim>\<open>getWifiStatus\<close> does not end, and neither does the pass that refreshes the status.
\<close>

lemma getWifiStatus_wait_Some:
  assumes "getWifiStatus_wait rx k st = Some y"
  shows "(\<forall>j. NL_CB_FINISH \<notin> set (rx j)) \<longrightarrow> wlanStatsResult (fst st) \<le> 0"
proof (rule getWifiStatus_wait.raw_induct
    [where P = "\<lambda>rx k st y. (\<forall>j. NL_CB_FINISH \<notin> set (rx j)) \<longrightarrow> wlanStatsResult (fst st) \<le> 0",
      OF _ assms])
  fix wait :: "(nat \<Rightarrow> nl_callback list) \<Rightarrow> nat \<Rightarrow> si_nlData \<times> si_wStats
     \<Rightarrow> (si_nlData \<times> si_wStats) option"
  fix rx k st y
  assume ih: "\<And>rx k st y. wait rx k st = Some y
      \<Longrightarrow> (\<forall>j. NL_CB_FINISH \<notin> set (rx j)) \<longrightarrow> wlanStatsResult (fst st) \<le> 0"
    and run: "(if 0 < wlanStatsResult (fst st)
      then wait rx (k + 1) (nl_recvmsgs (rx k) st) else Some st) = Some y"
  show "(\<forall>j. NL_CB_FINISH \<notin> set (rx j)) \<longrightarrow> wlanStatsResult (fst st) \<le> 0"
  proof (cases "wlanStatsResult (fst st) > 0")
    case False
    then show ?thesis by simp
  next
    case True
    then have "wait rx (k + 1) (nl_recvmsgs (rx k) st) = Some y"
      using run by simp
    from ih [OF this]
    have 1: "(\<forall>j. NL_CB_FINISH \<notin> set (rx j))
        \<longrightarrow> wlanStatsResult (fst (nl_recvmsgs (rx k) st)) \<le> 0" .
    have 2: "(\<forall>j. NL_CB_FINISH \<notin> set (rx j))
        \<longrightarrow> fst (nl_recvmsgs (rx k) st) = fst st"
    proof
      assume "\<forall>j. NL_CB_FINISH \<notin> set (rx j)"
      then have "NL_CB_FINISH \<notin> set (rx k)" by blast
      then show "fst (nl_recvmsgs (rx k) st) = fst st"
        by (rule nl_recvmsgs_no_finish)
    qed
    show ?thesis using 1 2 True by auto
  qed
qed


lemma wifi_query_without_finish:
  assumes "\<forall>j. NL_CB_FINISH \<notin> set (rx j)"
  shows "getWifiStatus True rx nl w = None"
proof (cases "getWifiStatus_wait rx 0 (nl\<lparr>wlanStatsResult := 1\<rparr>, w)")
  case None
  then show ?thesis by (simp add: getWifiStatus_def)
next
  case (Some y)
  from getWifiStatus_wait_Some [OF Some] assms show ?thesis by simp
qed

lemma refresh_hangs:
  "refresh example_config (example_reactor\<lparr>nlData := nl_resolved\<rparr>)
     (pass_timeout\<lparr>status_now := silent_status\<rparr>) = Hung"
proof -
  have "getWifiStatus True rx_silent nl w = None" for nl w
    by (rule wifi_query_without_finish) (simp add: rx_silent_def)
  then show ?thesis
    by (simp add: refresh_def getStatusInfo_def getStatusInfo_elements_def getNetwork_def
        example_reactor_def main_init_def nl_resolved_def pass_timeout_def silent_status_def
        first_char_def Let_def MX_ELEMENT_CHARS_def)
qed

end
